theory Spec2Isabelle
  imports Main
begin

section \<open>Exceptions, observable events and module state of bootstrap_v2.py\<close>

text \<open>
  Python exceptions become values. \<open>SystemExit\<close> stands for the exceptions that do not
  derive from \<open>Exception\<close> (an \<open>except Exception\<close> clause lets them pass); every other
  constructor is an \<open>Exception\<close> subclass. \<open>Exception\<close> itself carries the text of an
  error raised by an external collaborator or by a fetched payload; \<open>IOError\<close> and
  \<open>OSError\<close> come from the file system and from starting a process.
\<close>

datatype error =
    AttributeError string
  | KeyError string
  | RuntimeError string
  | UnboundLocalError string
  | IOError string
  | OSError string
  | Exception string
  | SystemExit string

fun is_Exception :: "error \<Rightarrow> bool" where
  "is_Exception (SystemExit m) = False"
| "is_Exception e = True"

text \<open>\<open>str(err)\<close>, as \<open>'%s' % err\<close> formats it; a \<open>KeyError\<close> shows the key quoted.\<close>

fun str :: "error \<Rightarrow> string" where
  "str (AttributeError m) = m"
| "str (KeyError k) = [CHR 0x27] @ k @ [CHR 0x27]"
| "str (RuntimeError m) = m"
| "str (UnboundLocalError m) = m"
| "str (IOError m) = m"
| "str (OSError m) = m"
| "str (Exception m) = m"
| "str (SystemExit m) = m"

text \<open>
  Everything the script does to the outside world is recorded, in order, as an event:
  a record handed to the \<open>ztpbootstrap\<close> logger (flag: \<open>error\<close> level), a line printed,
  a group-chat message sent (room, body, sender), a connection attempt of the chat
  client, a \<open>time.sleep\<close>, a \<open>FastCli\<close> command, an HTTP request (method, URL), a file
  opened and written (name, chunks) and made executable, an in-process load of a script
  (module name, file), a shell invocation of a file. A file operation that raises leaves
  no event.
\<close>

datatype event =
    Syslog bool string
  | Print string
  | XmppSend string string string
  | XmppConnect string nat
  | XmppProcess
  | Sleep nat
  | Cli string
  | Request string string
  | WriteFile string "string list"
  | Chmod string
  | LoadSource string string
  | Call string

text \<open>An \<open>XmppClient\<close> object: the fields set by \<open>__init__\<close>.\<close>

record xmpp =
  user :: string
  domain :: string
  password :: string
  server :: string
  port :: nat
  nick :: string
  rooms :: "string list"
  jid :: string
  connected :: bool

text \<open>
  The module's globals (\<open>syslog_manager\<close> is only ever tested for being set,
  \<open>xmpp_client\<close> is \<open>None\<close> or the client object, \<open>ATTRIBUTES\<close> is a dictionary),
  the wall clock in seconds, and the events so far.
\<close>

record state =
  syslog_manager :: bool
  xmpp_client :: "xmpp option"
  ATTRIBUTES :: "string \<rightharpoonup> string"
  clock :: nat
  trace :: "event list"

text \<open>The response of \<open>requests.get\<close>: its headers and the chunks of its body.\<close>

record response =
  headers :: "string \<rightharpoonup> string"
  iter_content :: "string list"

text \<open>
  The external collaborators, as parameters: how the clock is formatted by \<open>strftime\<close>,
  what \<open>FastCli\<close> answers to a command (return code, stdout, stderr) given the events
  so far, or what \<open>subprocess.Popen\<close> raises when it cannot start it; whether
  \<open>client.connect\<close> succeeds given the events so far; what \<open>requests.get/post/put\<close>
  return or raise for a method and URL; what opening a file for writing and writing the
  chunks to it raises, if anything; what \<open>os.chmod\<close> raises, if anything; whether
  \<open>imp.load_source\<close> of a module raises; and the return code of \<open>subprocess.call\<close>.
\<close>

record env =
  strftime :: "nat \<Rightarrow> string"
  FastCli :: "event list \<Rightarrow> string \<Rightarrow> error + int \<times> string \<times> string"
  client_connect :: "event list \<Rightarrow> string \<Rightarrow> nat \<Rightarrow> bool"
  requests :: "string \<Rightarrow> string \<Rightarrow> error + response"
  open_write :: "string \<Rightarrow> string list \<Rightarrow> error option"
  os_chmod :: "string \<Rightarrow> error option"
  load_source :: "string \<Rightarrow> string \<Rightarrow> error option"
  subprocess_call :: "string \<Rightarrow> int"

type_synonym 'a prog = "state \<Rightarrow> (error + 'a) \<times> state"

definition ret :: "'a \<Rightarrow> 'a prog" where
  "ret x s = (Inr x, s)"

definition raise :: "error \<Rightarrow> 'a prog" where
  "raise e s = (Inl e, s)"

text \<open>Sequencing: an exception in the first statement skips the rest.\<close>

definition bnd :: "'a prog \<Rightarrow> ('a \<Rightarrow> 'b prog) \<Rightarrow> 'b prog" where
  "bnd m f s = (case m s of (Inl e, s') \<Rightarrow> (Inl e, s') | (Inr x, s') \<Rightarrow> f x s')"

text \<open>\<open>try: body except Exception as err: handler\<close>.\<close>

definition try_except :: "'a prog \<Rightarrow> (error \<Rightarrow> 'a prog) \<Rightarrow> 'a prog" where
  "try_except body handler s =
     (case body s of
        (Inl e, s') \<Rightarrow> if is_Exception e then handler e s' else (Inl e, s')
      | (Inr x, s') \<Rightarrow> (Inr x, s'))"

definition emit :: "event \<Rightarrow> state \<Rightarrow> state" where
  "emit e s = s\<lparr>trace := trace s @ [e]\<rparr>"

definition sleep :: "nat \<Rightarrow> state \<Rightarrow> state" where
  "sleep n s = emit (Sleep n) (s\<lparr>clock := clock s + n\<rparr>)"

text \<open>\<open>sep.join(xs)\<close>.\<close>

fun join :: "string \<Rightarrow> string list \<Rightarrow> string" where
  "join sep [] = []"
| "join sep [x] = x"
| "join sep (x # y # ys) = x @ sep @ join sep (y # ys)"

text \<open>Decimal \<open>str\<close> of an integer, for \<open>'%s' % return_code\<close>.\<close>

definition digit_char :: "nat \<Rightarrow> char" where
  "digit_char d = ''0123456789'' ! d"

fun digits :: "nat \<Rightarrow> string" where
  "digits n = (if n < 10 then [digit_char n] else digits (n div 10) @ [digit_char (n mod 10)])"

declare digits.simps [simp del]

definition str_int :: "int \<Rightarrow> string" where
  "str_int i = (if i < 0 then CHR ''-'' # digits (nat (- i)) else digits (nat i))"

section \<open>Constants\<close>

definition SERVER :: string where "SERVER = ''$SERVER''"
definition CONTENT_TYPE_PYTHON :: string where "CONTENT_TYPE_PYTHON = ''text/x-python''"
definition CONTENT_TYPE_OTHER :: string where "CONTENT_TYPE_OTHER = ''text/plain''"
definition TEMP :: string where "TEMP = ''/tmp''"
definition COMMAND_API_USERNAME :: string where "COMMAND_API_USERNAME = ''ztps''"
definition COMMAND_API_PASSWORD :: string where "COMMAND_API_PASSWORD = ''ztps-password''"
definition COMMAND_API_PROTOCOL :: string where "COMMAND_API_PROTOCOL = ''http''"

text \<open>
  CPython bounds the depth of the call stack and raises \<open>RuntimeError\<close> when it is
  exceeded; the default bound is 1000 frames.
\<close>

definition recursion_limit :: nat where "recursion_limit = 1000"

section \<open>log and XmppClient.message\<close>

text \<open>
  \<open>log\<close> (lines 414-429) and \<open>XmppClient.message\<close> (lines 368-379) call each other.
  The first argument is the number of stack frames still available. \<open>log\<close> hands the
  message to the logger when \<open>syslog_manager\<close> is set, formats the line, reads
  \<open>xmpp_client.connected\<close> (an \<open>AttributeError\<close> when \<open>xmpp_client\<close> is \<open>None\<close>),
  passes the line to the messenger when that is connected, and prints the line.
\<close>

definition line :: "env \<Rightarrow> state \<Rightarrow> string \<Rightarrow> bool \<Rightarrow> string" where
  "line env s msg err =
     strftime env (clock s) @ '': ztp-bootstrap: '' @ (if err then ''ERROR: '' else '''') @ msg"

fun log_d :: "nat \<Rightarrow> env \<Rightarrow> string \<Rightarrow> bool \<Rightarrow> unit prog"
  and message_d :: "nat \<Rightarrow> env \<Rightarrow> xmpp \<Rightarrow> string \<Rightarrow> unit prog" where
  "log_d 0 env msg err s = (Inl (RuntimeError ''maximum recursion depth exceeded''), s)"
| "log_d (Suc d) env msg err s =
     (let s1 = (if syslog_manager s then emit (Syslog err msg) s else s) in
      case xmpp_client s1 of
        None \<Rightarrow> (Inl (AttributeError ''NoneType object has no attribute connected''), s1)
      | Some c \<Rightarrow>
          if connected c then
            (case message_d d env c (line env s1 msg err) s1 of
               (Inl e, s2) \<Rightarrow> (Inl e, s2)
             | (Inr u, s2) \<Rightarrow> (Inr (), emit (Print (line env s1 msg err)) s2))
          else (Inr (), emit (Print (line env s1 msg err)) s1))"
| "message_d 0 env self message s = (Inl (RuntimeError ''maximum recursion depth exceeded''), s)"
| "message_d (Suc d) env self message s =
     (if \<not> connected self then
        log_d d env (''XmppClient: Failed to send mesage because '' @ jid self
                     @ '' is not connected to server'') True s
      else
        (case log_d d env (''XmppClient: '' @ jid self @ '' says '' @ nick self) False s of
           (Inl e, s1) \<Rightarrow> (Inl e, s1)
         | (Inr u, s1) \<Rightarrow>
             (Inr (), foldl (\<lambda>t room. emit (XmppSend room message (nick self)) t) s1 (rooms self))))"

definition log :: "env \<Rightarrow> string \<Rightarrow> bool \<Rightarrow> unit prog" where
  "log env msg err = log_d recursion_limit env msg err"

definition message :: "env \<Rightarrow> xmpp \<Rightarrow> string \<Rightarrow> unit prog" where
  "message env self msg = message_d recursion_limit env self msg"

section \<open>XmppClient.connect and XmppClient.__init__\<close>

text \<open>
  The loop of \<open>connect\<close> (lines 356-366): \<open>while not retries\<close> runs its body while
  \<open>retries\<close> is zero. The body tries \<open>client.connect\<close>; on success it starts the
  client's processing and breaks; otherwise it logs, sleeps ten seconds and decrements
  \<open>retries\<close>.
\<close>

function connect_loop :: "env \<Rightarrow> xmpp \<Rightarrow> int \<Rightarrow> unit prog" where
  "connect_loop env self retries s =
     (if retries = 0 then
        (let ok = client_connect env (trace s) (server self) (port self);
             s1 = emit (XmppConnect (server self) (port self)) s in
         if ok then (Inr (), emit XmppProcess s1)
         else
           (case log env (''XmppClient: Failed to connect to XMPP server '' @ server self @ '':''
                          @ digits (port self) @ '' as '' @ jid self
                          @ ''. Retrying in 10 seconds...'') False s1 of
              (Inl e, s2) \<Rightarrow> (Inl e, s2)
            | (Inr u, s2) \<Rightarrow> connect_loop env self (retries - 1) (sleep 10 s2)))
      else (Inr (), s))"
  by pat_completeness auto
termination
  by (relation "measure (\<lambda>(env, self, retries, s). if retries = 0 then 1 else 0)") auto

declare connect_loop.simps [simp del]

definition connect :: "env \<Rightarrow> xmpp \<Rightarrow> unit prog" where
  "connect env self =
     bnd (log env (''XmppClient: Connecting to XMPP server '' @ server self @ '':''
                   @ digits (port self) @ '' as '' @ jid self) False)
         (\<lambda>u. connect_loop env self 3)"

text \<open>
  \<open>__init__\<close> (lines 297-315) fills the fields, configures the client (\<open>_client\<close> logs one
  line) and calls \<open>connect\<close>; it returns the new object.
\<close>

definition XmppClient :: "env \<Rightarrow> string \<Rightarrow> string \<Rightarrow> string \<Rightarrow> string \<Rightarrow> nat \<Rightarrow> string
    \<Rightarrow> string list option \<Rightarrow> xmpp prog" where
  "XmppClient env usr dmn pwd srv prt nck rms =
     (let self = \<lparr>user = usr, domain = dmn, password = pwd, server = srv, port = prt,
                  nick = nck, rooms = (case rms of None \<Rightarrow> [] | Some r \<Rightarrow> r),
                  jid = usr @ ''@'' @ dmn, connected = False\<rparr> in
      bnd (log env (''XmppClient: Configuring client for '' @ jid self) False)
          (\<lambda>u. bnd (connect env self) (\<lambda>u. ret self)))"

section \<open>Node._enable_api\<close>

text \<open>
  \<open>_cli_enable_cmd\<close> (lines 108-114) starts \<open>FastCli\<close> and returns its return code and
  output; \<open>_cli_config_cmds\<close> (lines 116-118) discards them.
\<close>

definition cli_enable_cmd :: "env \<Rightarrow> string \<Rightarrow> (int \<times> string \<times> string) prog" where
  "cli_enable_cmd env cmd s = (FastCli env (trace s) cmd, emit (Cli cmd) s)"

definition cli_config_cmds :: "env \<Rightarrow> string list \<Rightarrow> unit prog" where
  "cli_config_cmds env cmds =
     bnd (cli_enable_cmd env (join [CHR 0x0A] (''configure'' # cmds))) (\<lambda>r. ret ())"

definition status_cmd :: string where
  "status_cmd = ''show management api http-commands | grep running''"

text \<open>
  The loop of \<open>_enable_api\<close> (lines 133-138), \<open>while not out and retries\<close>: \<open>retries\<close>
  starts at 30 and is only decremented while it is not zero, so it is a natural number.
  Each round logs, sleeps one second, decrements \<open>retries\<close> and asks for the status again.
\<close>

fun enable_api_loop :: "env \<Rightarrow> nat \<Rightarrow> string \<Rightarrow> unit prog" where
  "enable_api_loop env 0 out s = (Inr (), s)"
| "enable_api_loop env (Suc retries) out s =
     (if out = [] then
        (case log env ''Waiting for CommandAPI to be enabled...'' False s of
           (Inl e, s1) \<Rightarrow> (Inl e, s1)
         | (Inr u, s1) \<Rightarrow>
             (case cli_enable_cmd env status_cmd (sleep 1 s1) of
                (Inl e, s2) \<Rightarrow> (Inl e, s2)
              | (Inr (code, out', err), s2) \<Rightarrow> enable_api_loop env retries out' s2))
      else (Inr (), s))"

definition enable_api :: "env \<Rightarrow> unit prog" where
  "enable_api env =
     bnd (cli_config_cmds env
            [''username '' @ COMMAND_API_USERNAME @ '' secret '' @ COMMAND_API_PASSWORD
               @ '' privilege 15'',
             ''management api http-commands'',
             ''no protocol https'',
             ''protocol '' @ COMMAND_API_PROTOCOL,
             ''no shutdown''])
         (\<lambda>u. bnd (cli_enable_cmd env status_cmd)
                  (\<lambda>(code, out, err). enable_api_loop env 30 out))"

section \<open>Node.neighbors\<close>

text \<open>
  An entry of \<open>lldpNeighbors\<close> is a dictionary of strings; the result maps a local port to
  the list of its neighbors. The loop (lines 164-171) reads
  \<open>result['neighbors'][entry['port']]\<close> before it stores anything under that key; reading
  a key that a dictionary does not have raises \<open>KeyError\<close>.
\<close>

record neighbor =
  device :: string
  remote_interface :: string

fun neighbors_loop :: "(string \<rightharpoonup> string) list \<Rightarrow> (string \<rightharpoonup> neighbor list)
    \<Rightarrow> error + (string \<rightharpoonup> neighbor list)" where
  "neighbors_loop [] result = Inr result"
| "neighbors_loop (entry # rest) result =
     (case entry ''neighborDevice'' of
        None \<Rightarrow> Inl (KeyError ''neighborDevice'')
      | Some dev \<Rightarrow>
     (case entry ''neighborPort'' of
        None \<Rightarrow> Inl (KeyError ''neighborPort'')
      | Some rp \<Rightarrow>
     (case entry ''port'' of
        None \<Rightarrow> Inl (KeyError ''port'')
      | Some p \<Rightarrow>
     (case result p of
        None \<Rightarrow> Inl (KeyError p)
      | Some old \<Rightarrow>
          if old \<noteq> [] then
            neighbors_loop rest
              (result(p \<mapsto> old @ [\<lparr>device = dev, remote_interface = rp\<rparr>]))
          else
            neighbors_loop rest (result(p \<mapsto> [\<lparr>device = dev, remote_interface = rp\<rparr>]))))))"

definition neighbors :: "(string \<rightharpoonup> string) list \<Rightarrow> error + (string \<rightharpoonup> neighbor list)" where
  "neighbors lldpNeighbors = neighbors_loop lldpNeighbors Map.empty"

section \<open>ServerConnection and download_action\<close>

text \<open>
  \<open>_http_request\<close> (lines 241-275) builds the URL, logs the method and calls
  \<open>requests\<close>; for a method it does not know it logs an error and then returns a local
  variable that was never assigned. A \<open>ServerConnection\<close> is its \<open>url\<close>.
\<close>

definition http_request :: "env \<Rightarrow> string \<Rightarrow> string \<Rightarrow> string \<Rightarrow> response prog" where
  "http_request env url path method =
     (let full_url = url @ ''/'' @ path in
      if method = ''get'' then
        bnd (log env (''ServerConnection: GET '' @ full_url) False)
            (\<lambda>u s. (requests env ''get'' full_url, emit (Request ''get'' full_url) s))
      else if method = ''post'' then
        bnd (log env (''ServerConnection: POST '' @ full_url) False)
            (\<lambda>u s. (requests env ''post'' full_url, emit (Request ''post'' full_url) s))
      else if method = ''put'' then
        bnd (log env (''ServerConnection: PUT '' @ full_url) False)
            (\<lambda>u s. (requests env ''put'' full_url, emit (Request ''put'' full_url) s))
      else
        bnd (log env (''ServerConnection: Unknown method '' @ method) True)
            (\<lambda>u. raise (UnboundLocalError
                          ''local variable response referenced before assignment'')))"

definition get_action :: "env \<Rightarrow> string \<Rightarrow> string \<Rightarrow> response prog" where
  "get_action env url action =
     bnd (log env ''ServerConnection: Retrieving server config'' False)
         (\<lambda>u. http_request env url (''actions/'' @ action) ''get'')"

text \<open>\<open>os.path.join(a, b)\<close> for an \<open>a\<close> without a trailing slash.\<close>

definition path_join :: "string \<Rightarrow> string \<Rightarrow> string" where
  "path_join a b = (if b \<noteq> [] \<and> hd b = CHR ''/'' then b else a @ ''/'' @ b)"

text \<open>
  \<open>download_action\<close> (lines 432-444): fetch; open the file under \<open>TEMP\<close> and write the
  non-empty chunks to it; make it executable; read the content type of the response and
  return it with the file name. Opening or writing the file, \<open>os.chmod\<close> and a missing
  header each raise, and nothing here catches it.
\<close>

definition download_action :: "env \<Rightarrow> string \<Rightarrow> string \<Rightarrow> (string \<times> string) prog" where
  "download_action env srv action =
     bnd (get_action env srv action)
         (\<lambda>resp s.
            let filename = path_join TEMP action;
                chunks = filter (\<lambda>chunk. chunk \<noteq> []) (iter_content resp) in
            case open_write env filename chunks of
              Some e \<Rightarrow> (Inl e, s)
            | None \<Rightarrow>
                (let s1 = emit (WriteFile filename chunks) s in
                 case os_chmod env filename of
                   Some e \<Rightarrow> (Inl e, s1)
                 | None \<Rightarrow>
                     (let s2 = emit (Chmod filename) s1 in
                      case headers resp ''content-type'' of
                        None \<Rightarrow> (Inl (KeyError ''content-type''), s2)
                      | Some content_type \<Rightarrow> (Inr (content_type, filename), s2))))"

section \<open>execute_action and the loop of main\<close>

text \<open>The details of an action: a dictionary with the keys the script reads.\<close>

record details =
  requires :: "string list option"
  onstart :: "string option"
  onsuccess :: "string option"
  onfailure :: "string option"

text \<open>\<open>if key in action_details: log('ACTION %s:%s' % (action, action_details[key]))\<close>.\<close>

definition hook :: "env \<Rightarrow> string \<Rightarrow> string option \<Rightarrow> unit prog" where
  "hook env action h =
     (case h of None \<Rightarrow> ret () | Some m \<Rightarrow> log env (''ACTION '' @ action @ '':'' @ m) False)"

definition imp_load_source :: "env \<Rightarrow> string \<Rightarrow> string \<Rightarrow> unit prog" where
  "imp_load_source env action filename s =
     (case load_source env action filename of
        None \<Rightarrow> (Inr (), emit (LoadSource action filename) s)
      | Some e \<Rightarrow> (Inl e, emit (LoadSource action filename) s))"

definition execute_action :: "env \<Rightarrow> string \<Rightarrow> string \<Rightarrow> details \<Rightarrow> unit prog" where
  "execute_action env srv action action_details =
     bnd (log env (''Downloading action '' @ action) False) (\<lambda>u.
     bnd (download_action env srv action) (\<lambda>(content_type, filename).
     bnd (log env (''Executing action '' @ action) False) (\<lambda>u.
     bnd (hook env action (onstart action_details)) (\<lambda>u.
       if content_type = CONTENT_TYPE_PYTHON then
         try_except
           (bnd (imp_load_source env action filename) (\<lambda>u.
            bnd (log env (''Action '' @ action @ '' executed succesfully'') False) (\<lambda>u.
            hook env action (onsuccess action_details))))
           (\<lambda>err.
            bnd (log env (''Executing '' @ action @ '' failed: '' @ str err) True) (\<lambda>u.
            hook env action (onfailure action_details)))
       else if content_type = CONTENT_TYPE_OTHER then
         (\<lambda>s. let return_code = subprocess_call env filename;
                  s1 = emit (Call filename) s in
              if return_code \<noteq> 0 then
                bnd (log env (''Executing '' @ action @ '' failed: returncode=''
                              @ str_int return_code) True) (\<lambda>u.
                hook env action (onfailure action_details)) s1
              else
                bnd (log env (''Action '' @ action @ '' executed succesfully'') False) (\<lambda>u.
                hook env action (onsuccess action_details)) s1)
       else
         log env (''Unable to execute action '' @ action @ '' - unknown contenty-type ''
                  @ content_type) True))))"

text \<open>
  The loop of \<open>main\<close> (lines 499-507) over the items of \<open>definition['actions']\<close>, in the
  order the dictionary yields them.
\<close>

definition missing_attr :: "state \<Rightarrow> string list \<Rightarrow> string list" where
  "missing_attr s req = filter (\<lambda>x. ATTRIBUTES s x = None) req"

fun run_actions :: "env \<Rightarrow> string \<Rightarrow> (string \<times> details) list \<Rightarrow> unit prog" where
  "run_actions env srv [] s = (Inr (), s)"
| "run_actions env srv ((action, dets) # rest) s =
     (case requires dets of
        None \<Rightarrow> (Inl (KeyError ''requires''), s)
      | Some req \<Rightarrow>
          if missing_attr s req \<noteq> [] then
            (case log env (''Failed to load action '' @ action
                           @ '' because the following attributes are missing: ''
                           @ join '', '' (missing_attr s req)) True s of
               (Inl e, s1) \<Rightarrow> (Inl e, s1)
             | (Inr u, s1) \<Rightarrow> run_actions env srv rest s1)
          else
            (case execute_action env srv action dets s of
               (Inl e, s1) \<Rightarrow> (Inl e, s1)
             | (Inr u, s1) \<Rightarrow> run_actions env srv rest s1))"

text \<open>The definition received from the server, and lines 495-509 of \<open>main\<close>.\<close>

record defn =
  name :: string
  attributes :: "string \<rightharpoonup> string"
  actions :: "(string \<times> details) list"

definition apply_definition :: "env \<Rightarrow> string \<Rightarrow> defn \<Rightarrow> unit prog" where
  "apply_definition env srv d =
     bnd (log env (''Applying definition '' @ name d) False) (\<lambda>u.
     bnd (\<lambda>s. (Inr (), s\<lparr>ATTRIBUTES := attributes d\<rparr>)) (\<lambda>u.
     bnd (run_actions env srv (actions d)) (\<lambda>u.
     log env (''Definition '' @ name d @ '' applied successfully'') False)))"

section \<open>Auxiliary definitions for the statements\<close>

definition log_events :: "env \<Rightarrow> state \<Rightarrow> string \<Rightarrow> bool \<Rightarrow> event list" where
  "log_events env s msg err =
     (if syslog_manager s then [Syslog err msg] else []) @ [Print (line env s msg err)]"

definition logged :: "env \<Rightarrow> string \<Rightarrow> bool \<Rightarrow> state \<Rightarrow> state" where
  "logged env msg err s = s\<lparr>trace := trace s @ log_events env s msg err\<rparr>"

definition add_events :: "event list \<Rightarrow> state \<Rightarrow> state" where
  "add_events evs s = s\<lparr>trace := trace s @ evs\<rparr>"

definition hook_events :: "env \<Rightarrow> state \<Rightarrow> string \<Rightarrow> string option \<Rightarrow> event list" where
  "hook_events env s action h =
     (case h of None \<Rightarrow> [] | Some m \<Rightarrow> log_events env s (''ACTION '' @ action @ '':'' @ m) False)"

definition action_url :: "string \<Rightarrow> string \<Rightarrow> string" where
  "action_url srv action = srv @ ''/'' @ ''actions/'' @ action"

definition get_events :: "env \<Rightarrow> state \<Rightarrow> string \<Rightarrow> string \<Rightarrow> event list" where
  "get_events env s srv action =
     log_events env s ''ServerConnection: Retrieving server config'' False
     @ log_events env s (''ServerConnection: GET '' @ action_url srv action) False
     @ [Request ''get'' (action_url srv action)]"

definition start_events :: "env \<Rightarrow> state \<Rightarrow> string \<Rightarrow> string \<Rightarrow> details \<Rightarrow> response \<Rightarrow> event list" where
  "start_events env s srv action dets resp =
     log_events env s (''Downloading action '' @ action) False
     @ get_events env s srv action
     @ [WriteFile (path_join TEMP action) (filter (\<lambda>chunk. chunk \<noteq> []) (iter_content resp)),
        Chmod (path_join TEMP action)]
     @ log_events env s (''Executing action '' @ action) False
     @ hook_events env s action (onstart dets)"

definition saved :: "env \<Rightarrow> string \<Rightarrow> response \<Rightarrow> bool" where
  "saved env action resp =
     (open_write env (path_join TEMP action) (filter (\<lambda>chunk. chunk \<noteq> []) (iter_content resp)) = None
      \<and> os_chmod env (path_join TEMP action) = None)"

definition is_execution :: "event \<Rightarrow> bool" where
  "is_execution e = (case e of LoadSource a f \<Rightarrow> True | Call f \<Rightarrow> True | _ \<Rightarrow> False)"

definition is_send :: "event \<Rightarrow> bool" where
  "is_send e = (case e of XmppSend r b f \<Rightarrow> True | _ \<Rightarrow> False)"

definition safe :: "state \<Rightarrow> bool" where
  "safe s = (case xmpp_client s of None \<Rightarrow> False | Some c \<Rightarrow> \<not> connected c)"

fun is_notice :: "event \<Rightarrow> bool" where
  "is_notice (Syslog e m) = True"
| "is_notice (Print m) = True"
| "is_notice (XmppSend r b f) = True"
| "is_notice e = False"

definition extends :: "state \<Rightarrow> state \<Rightarrow> bool" where
  "extends s s' = (\<exists>evs. s' = s\<lparr>trace := trace s @ evs\<rparr> \<and> list_all is_notice evs)"

definition client0 :: xmpp where
  "client0 = \<lparr>user = ''ztps'', domain = ''example.com'', password = ''secret'',
              server = ''xmpp.example.com'', port = 5222, nick = ''ztps'',
              rooms = [''ztps-room''], jid = ''ztps@example.com'', connected = False\<rparr>"

definition module_state :: state where
  "module_state = \<lparr>syslog_manager = False, xmpp_client = None, ATTRIBUTES = Map.empty,
                   clock = 0, trace = []\<rparr>"

definition configured_state :: state where
  "configured_state = \<lparr>syslog_manager = True, xmpp_client = Some client0,
                       ATTRIBUTES = [''x'' \<mapsto> ''1''], clock = 0, trace = []\<rparr>"

definition test_env :: env where
  "test_env = \<lparr>strftime = (\<lambda>t. ''2014-03-01_00:00:00''),
               FastCli = (\<lambda>h cmd. Inr (0, [], [])),
               client_connect = (\<lambda>h srv prt. True),
               requests = (\<lambda>method url.
                 if url = ''$SERVER/actions/a1'' then
                   Inr \<lparr>headers = [''content-type'' \<mapsto> ''text/x-python''],
                        iter_content = [''raise ValueError'']\<rparr>
                 else if url = ''$SERVER/actions/a3'' then
                   Inr \<lparr>headers = [''content-type'' \<mapsto> ''text/plain''],
                        iter_content = [''exit 2'']\<rparr>
                 else if url = ''$SERVER/actions/a4'' then
                   Inr \<lparr>headers = [''content-type'' \<mapsto> ''application/json''],
                        iter_content = [''{}'']\<rparr>
                 else if url = ''$SERVER/actions/a7'' then
                   Inr \<lparr>headers = [''content-type'' \<mapsto> ''text/x-python''],
                        iter_content = [''import sys; sys.exit(1)'']\<rparr>
                 else if url = ''$SERVER/actions/a8'' then
                   Inr \<lparr>headers = Map.empty, iter_content = [''echo'']\<rparr>
                 else if url = ''$SERVER/actions/'' then
                   Inr \<lparr>headers = [''content-type'' \<mapsto> ''text/plain''],
                        iter_content = [''echo'']\<rparr>
                 else Inl (Exception ''connection refused'')),
               open_write = (\<lambda>filename chunks.
                 if filename = ''/tmp/'' then Some (IOError ''Is a directory'') else None),
               os_chmod = (\<lambda>filename. None),
               load_source = (\<lambda>action filename.
                 if action = ''a7'' then Some (SystemExit ''1'') else Some (Exception ''boom'')),
               subprocess_call = (\<lambda>filename. 2)\<rparr>"

definition is_connect_attempt :: "event \<Rightarrow> bool" where
  "is_connect_attempt e = (case e of XmppConnect srv prt \<Rightarrow> True | _ \<Rightarrow> False)"

definition lldp_entry :: "string \<rightharpoonup> string" where
  "lldp_entry = [''port'' \<mapsto> ''Ethernet1'', ''neighborDevice'' \<mapsto> ''spine1'',
                 ''neighborPort'' \<mapsto> ''Ethernet7'']"

definition dets_a1 :: details where
  "dets_a1 = \<lparr>requires = Some [''x''], onstart = None, onsuccess = None,
               onfailure = Some ''a1 failed''\<rparr>"

definition dets_a2 :: details where
  "dets_a2 = \<lparr>requires = Some [''x'', ''y'', ''z''], onstart = None, onsuccess = None,
               onfailure = None\<rparr>"

definition dets_bare :: details where
  "dets_bare = \<lparr>requires = None, onstart = None, onsuccess = None, onfailure = None\<rparr>"

fun request_urls :: "event list \<Rightarrow> string list" where
  "request_urls [] = []"
| "request_urls (Request m u # es) = u # request_urls es"
| "request_urls (e # es) = request_urls es"

definition eligible :: "state \<Rightarrow> details \<Rightarrow> bool" where
  "eligible s dets = (case requires dets of None \<Rightarrow> False | Some req \<Rightarrow> missing_attr s req = [])"



section \<open>Properties\<close>

lemma bnd_Inr: "m s = (Inr x, s') \<Longrightarrow> bnd m f s = f x s'"
  by (simp add: bnd_def)

lemma bnd_Inl: "m s = (Inl e, s') \<Longrightarrow> bnd m f s = (Inl e, s')"
  by (simp add: bnd_def)

lemma recursion_limit_Suc: "recursion_limit = Suc (Suc 998)"
  by (simp add: recursion_limit_def)

lemma log_d_safe:
  "safe s \<Longrightarrow> log_d (Suc d) env msg err s = (Inr (), logged env msg err s)"
  by (auto simp: safe_def logged_def log_events_def emit_def line_def split: option.splits)

lemma log_safe: "safe s \<Longrightarrow> log env msg err s = (Inr (), logged env msg err s)"
  unfolding log_def recursion_limit_Suc by (rule log_d_safe)

lemma logged_fields [simp]:
  "syslog_manager (logged env msg err s) = syslog_manager s"
  "xmpp_client (logged env msg err s) = xmpp_client s"
  "ATTRIBUTES (logged env msg err s) = ATTRIBUTES s"
  "clock (logged env msg err s) = clock s"
  "trace (logged env msg err s) = trace s @ log_events env s msg err"
  by (simp_all add: logged_def)

lemma safe_logged [simp]: "safe (logged env msg err s) = safe s"
  by (simp add: safe_def)

lemma log_events_logged [simp]:
  "log_events env (logged env m e s) msg err = log_events env s msg err"
  by (simp add: log_events_def line_def)

lemma log_d_none:
  "xmpp_client s = None \<Longrightarrow> log_d (Suc d) env msg err s =
     (Inl (AttributeError ''NoneType object has no attribute connected''),
      if syslog_manager s then emit (Syslog err msg) s else s)"
  by (simp add: emit_def)

lemma log_none:
  "xmpp_client s = None \<Longrightarrow> log env msg err s =
     (Inl (AttributeError ''NoneType object has no attribute connected''),
      if syslog_manager s then emit (Syslog err msg) s else s)"
  unfolding log_def recursion_limit_Suc by (rule log_d_none)

lemma extends_refl [simp]: "extends s s"
  unfolding extends_def by (rule exI [of _ "[]"]) simp







lemma connect_loop_3: "connect_loop env self 3 s = (Inr (), s)"
  by (simp add: connect_loop.simps)

lemma connect_is_log:
  "connect env self s =
     log env (''XmppClient: Connecting to XMPP server '' @ server self @ '':''
              @ digits (port self) @ '' as '' @ jid self) False s"
  by (cases "log env (''XmppClient: Connecting to XMPP server '' @ server self @ '':''
              @ digits (port self) @ '' as '' @ jid self) False s")
     (auto simp: connect_def bnd_def connect_loop_3 split: sum.splits)

lemma safe_configured: "safe configured_state"
  by (simp add: safe_def configured_state_def client0_def)

lemma digits_5222: "digits 5222 = ''5222''"
  by (simp add: digits.simps digit_char_def)

text \<open>
  Claim C4 (connection establishment tries to connect and retries three times, ten
  seconds apart, before giving up). The code does not do this: \<open>retries\<close> starts at 3
  and the loop runs while \<open>not retries\<close>, so its body is never entered. With a server
  that would accept the first attempt, \<open>connect\<close> only writes its opening log line:
  no connection attempt is made, nothing is retried and nothing sleeps.
\<close>

theorem connect_makes_no_attempt:
  "client_connect test_env (trace configured_state) (server client0) (port client0)
   \<and> connect test_env client0 configured_state =
       (Inr (), configured_state\<lparr>trace :=
          [Syslog False ''XmppClient: Connecting to XMPP server xmpp.example.com:5222 as ztps@example.com'',
           Print ''2014-03-01_00:00:00: ztp-bootstrap: XmppClient: Connecting to XMPP server xmpp.example.com:5222 as ztps@example.com'']\<rparr>)
   \<and> filter is_connect_attempt (trace (snd (connect test_env client0 configured_state))) = []"
proof -
  have "connect test_env client0 configured_state =
       (Inr (), configured_state\<lparr>trace :=
          [Syslog False ''XmppClient: Connecting to XMPP server xmpp.example.com:5222 as ztps@example.com'',
           Print ''2014-03-01_00:00:00: ztp-bootstrap: XmppClient: Connecting to XMPP server xmpp.example.com:5222 as ztps@example.com'']\<rparr>)"
    unfolding connect_is_log log_safe [OF safe_configured]
    by (simp add: logged_def log_events_def line_def client0_def digits_5222
                  configured_state_def test_env_def)
  then show ?thesis
    by (simp add: test_env_def is_connect_attempt_def)
qed

lemma enable_api_loop_without_messenger:
  "xmpp_client s = None \<Longrightarrow>
   fst (enable_api_loop env (Suc d) [] s)
     = Inl (AttributeError ''NoneType object has no attribute connected'')"
  by (simp add: log_none)

lemma enable_api_without_messenger:
  assumes "xmpp_client s = None"
    and "\<And>h cmd. FastCli env h cmd = Inr (0, [], [])"
  shows "fst (enable_api env s)
     = Inl (AttributeError ''NoneType object has no attribute connected'')"
proof -
  have n: "(30::nat) = Suc 29" by simp
  have x: "\<And>a b. xmpp_client (emit a (emit b s)) = None"
    using assms(1) by (simp add: emit_def)
  show ?thesis
    unfolding enable_api_def cli_config_cmds_def cli_enable_cmd_def bnd_def ret_def assms(2) n
    using enable_api_loop_without_messenger [OF x, of env 29]
    by (simp del: enable_api_loop.simps)
qed

text \<open>
  Claim C7 (logging is safe while no messenger has been constructed). The code does not
  do this: \<open>log\<close> guards \<open>syslog_manager\<close> but reads \<open>xmpp_client.connected\<close>
  unguarded. In the module's initial state, where \<open>xmpp_client\<close> is \<open>None\<close>, the
  waiting notice of the readiness poll raises \<open>AttributeError\<close> before anything is
  printed, and so does \<open>_enable_api\<close> when the API is not yet running.
\<close>

theorem log_without_messenger_raises:
  "log test_env ''Waiting for CommandAPI to be enabled...'' False module_state
     = (Inl (AttributeError ''NoneType object has no attribute connected''), module_state)
   \<and> fst (enable_api test_env module_state)
     = Inl (AttributeError ''NoneType object has no attribute connected'')"
proof -
  have x: "xmpp_client module_state = None" "\<not> syslog_manager module_state"
    by (simp_all add: module_state_def)
  have l: "log test_env ''Waiting for CommandAPI to be enabled...'' False module_state
     = (Inl (AttributeError ''NoneType object has no attribute connected''), module_state)"
    using x by (simp add: log_none)
  have "fst (enable_api test_env module_state)
     = Inl (AttributeError ''NoneType object has no attribute connected'')"
    by (rule enable_api_without_messenger) (simp_all add: module_state_def test_env_def)
  then show ?thesis using l by simp
qed

text \<open>
  Claim C3 (neighbor merging inserts or appends, and never indexes an absent key).
  The code does not do this: the dictionary of neighbors starts empty and the loop reads
  the slot of the entry's port before storing anything there, so an inventory with a
  single well-formed neighbor raises \<open>KeyError\<close> for that port.
\<close>

theorem neighbors_first_entry_raises:
  "neighbors [lldp_entry] = Inl (KeyError ''Ethernet1'')"
  by (simp add: neighbors_def lldp_entry_def)

lemma neighbors_nonempty_raises:
  "entry ''neighborDevice'' = Some dev \<Longrightarrow> entry ''neighborPort'' = Some rp
   \<Longrightarrow> entry ''port'' = Some p \<Longrightarrow> neighbors (entry # rest) = Inl (KeyError p)"
  by (simp add: neighbors_def)

lemma neighbors_empty: "neighbors [] = Inr Map.empty"
  by (simp add: neighbors_def)


subsection \<open>Runs in a state whose messenger is set and not connected\<close>

lemma add_events_fields [simp]:
  "syslog_manager (add_events evs s) = syslog_manager s"
  "xmpp_client (add_events evs s) = xmpp_client s"
  "ATTRIBUTES (add_events evs s) = ATTRIBUTES s"
  "clock (add_events evs s) = clock s"
  "trace (add_events evs s) = trace s @ evs"
  by (simp_all add: add_events_def)

lemma add_events_add_events [simp]:
  "add_events b (add_events a s) = add_events (a @ b) s"
  by (simp add: add_events_def)

lemma add_events_Nil [simp]: "add_events [] s = s"
  by (simp add: add_events_def)

lemma emit_add_events: "emit e s = add_events [e] s"
  by (simp add: emit_def add_events_def)

lemma logged_add_events: "logged env msg err s = add_events (log_events env s msg err) s"
  by (simp add: logged_def add_events_def)

lemma safe_add_events [simp]: "safe (add_events evs s) = safe s"
  by (simp add: safe_def)

lemma log_events_add_events [simp]:
  "log_events env (add_events evs s) msg err = log_events env s msg err"
  by (simp add: log_events_def line_def)

lemma hook_events_add_events [simp]:
  "hook_events env (add_events evs s) action h = hook_events env s action h"
  by (simp add: hook_events_def split: option.splits)

lemma get_events_add_events [simp]:
  "get_events env (add_events evs s) srv action = get_events env s srv action"
  by (simp add: get_events_def)

lemma missing_attr_add_events [simp]:
  "missing_attr (add_events evs s) req = missing_attr s req"
  by (simp add: missing_attr_def)

lemma log_add: "safe s \<Longrightarrow> log env msg err s = (Inr (), add_events (log_events env s msg err) s)"
  by (simp add: log_safe logged_add_events)

lemma hook_add:
  "safe s \<Longrightarrow> hook env action h s = (Inr (), add_events (hook_events env s action h) s)"
  by (simp add: hook_def hook_events_def ret_def log_add split: option.splits)

lemma get_action_add:
  "safe s \<Longrightarrow> get_action env srv action s =
     (requests env ''get'' (action_url srv action), add_events (get_events env s srv action) s)"
  by (simp add: get_action_def http_request_def bnd_def log_add Let_def emit_add_events
                get_events_def action_url_def)

lemma download_action_ok:
  assumes "safe s" "requests env ''get'' (action_url srv action) = Inr resp"
    "saved env action resp"
    "headers resp ''content-type'' = Some ct"
  shows "download_action env srv action s =
     (Inr (ct, path_join TEMP action),
      add_events (get_events env s srv action
        @ [WriteFile (path_join TEMP action) (filter (\<lambda>chunk. chunk \<noteq> []) (iter_content resp)),
           Chmod (path_join TEMP action)]) s)"
  using assms
  by (simp add: download_action_def bnd_def get_action_add Let_def emit_add_events saved_def)

lemma download_action_no_header:
  assumes "safe s" "requests env ''get'' (action_url srv action) = Inr resp"
    "saved env action resp"
    "headers resp ''content-type'' = None"
  shows "download_action env srv action s =
     (Inl (KeyError ''content-type''),
      add_events (get_events env s srv action
        @ [WriteFile (path_join TEMP action) (filter (\<lambda>chunk. chunk \<noteq> []) (iter_content resp)),
           Chmod (path_join TEMP action)]) s)"
  using assms
  by (simp add: download_action_def bnd_def get_action_add Let_def emit_add_events saved_def)

lemma download_action_write_raises:
  assumes "safe s" "requests env ''get'' (action_url srv action) = Inr resp"
    "open_write env (path_join TEMP action) (filter (\<lambda>chunk. chunk \<noteq> []) (iter_content resp))
       = Some e"
  shows "download_action env srv action s = (Inl e, add_events (get_events env s srv action) s)"
  using assms
  by (simp add: download_action_def bnd_def get_action_add Let_def)

lemma download_action_chmod_raises:
  assumes "safe s" "requests env ''get'' (action_url srv action) = Inr resp"
    "open_write env (path_join TEMP action) (filter (\<lambda>chunk. chunk \<noteq> []) (iter_content resp))
       = None"
    "os_chmod env (path_join TEMP action) = Some e"
  shows "download_action env srv action s =
     (Inl e, add_events (get_events env s srv action
        @ [WriteFile (path_join TEMP action) (filter (\<lambda>chunk. chunk \<noteq> []) (iter_content resp))]) s)"
  using assms
  by (simp add: download_action_def bnd_def get_action_add Let_def emit_add_events)

lemma download_action_raises:
  assumes "safe s" "requests env ''get'' (action_url srv action) = Inl e"
  shows "download_action env srv action s = (Inl e, add_events (get_events env s srv action) s)"
  using assms
  by (simp add: download_action_def bnd_def get_action_add)

lemma execute_action_started:
  assumes "safe s" "requests env ''get'' (action_url srv action) = Inr resp"
    "saved env action resp"
    "headers resp ''content-type'' = Some ct"
  shows "execute_action env srv action dets s =
     (if ct = CONTENT_TYPE_PYTHON then
         try_except
           (bnd (imp_load_source env action (path_join TEMP action)) (\<lambda>u.
            bnd (log env (''Action '' @ action @ '' executed succesfully'') False) (\<lambda>u.
            hook env action (onsuccess dets))))
           (\<lambda>err.
            bnd (log env (''Executing '' @ action @ '' failed: '' @ str err) True) (\<lambda>u.
            hook env action (onfailure dets)))
       else if ct = CONTENT_TYPE_OTHER then
         (\<lambda>s. let return_code = subprocess_call env (path_join TEMP action);
                  s1 = emit (Call (path_join TEMP action)) s in
              if return_code \<noteq> 0 then
                bnd (log env (''Executing '' @ action @ '' failed: returncode=''
                              @ str_int return_code) True) (\<lambda>u.
                hook env action (onfailure dets)) s1
              else
                bnd (log env (''Action '' @ action @ '' executed succesfully'') False) (\<lambda>u.
                hook env action (onsuccess dets)) s1)
       else
         log env (''Unable to execute action '' @ action @ '' - unknown contenty-type ''
                  @ ct) True)
      (add_events (start_events env s srv action dets resp) s)"
  using assms
  by (simp add: execute_action_def bnd_def log_add download_action_ok hook_add start_events_def)

lemma execute_action_python_raises:
  assumes "safe s" "requests env ''get'' (action_url srv action) = Inr resp"
    "saved env action resp"
    "headers resp ''content-type'' = Some CONTENT_TYPE_PYTHON"
    "load_source env action (path_join TEMP action) = Some e" "is_Exception e"
  shows "execute_action env srv action dets s =
     (Inr (), add_events (start_events env s srv action dets resp
        @ [LoadSource action (path_join TEMP action)]
        @ log_events env s (''Executing '' @ action @ '' failed: '' @ str e) True
        @ hook_events env s action (onfailure dets)) s)"
  using assms
  by (simp add: execute_action_started try_except_def bnd_def imp_load_source_def
                emit_add_events log_add hook_add)

lemma execute_action_python_ok:
  assumes "safe s" "requests env ''get'' (action_url srv action) = Inr resp"
    "saved env action resp"
    "headers resp ''content-type'' = Some CONTENT_TYPE_PYTHON"
    "load_source env action (path_join TEMP action) = None"
  shows "execute_action env srv action dets s =
     (Inr (), add_events (start_events env s srv action dets resp
        @ [LoadSource action (path_join TEMP action)]
        @ log_events env s (''Action '' @ action @ '' executed succesfully'') False
        @ hook_events env s action (onsuccess dets)) s)"
  using assms
  by (simp add: execute_action_started try_except_def bnd_def imp_load_source_def
                emit_add_events log_add hook_add)

lemma execute_action_python_exits:
  assumes "safe s" "requests env ''get'' (action_url srv action) = Inr resp"
    "saved env action resp"
    "headers resp ''content-type'' = Some CONTENT_TYPE_PYTHON"
    "load_source env action (path_join TEMP action) = Some e" "\<not> is_Exception e"
  shows "execute_action env srv action dets s =
     (Inl e, add_events (start_events env s srv action dets resp
        @ [LoadSource action (path_join TEMP action)]) s)"
  using assms
  by (simp add: execute_action_started try_except_def bnd_def imp_load_source_def
                emit_add_events)

lemma types_differ: "CONTENT_TYPE_OTHER \<noteq> CONTENT_TYPE_PYTHON"
  by (simp add: CONTENT_TYPE_OTHER_def CONTENT_TYPE_PYTHON_def)

lemma execute_action_binary_fails:
  assumes "safe s" "requests env ''get'' (action_url srv action) = Inr resp"
    "saved env action resp"
    "headers resp ''content-type'' = Some CONTENT_TYPE_OTHER"
    "subprocess_call env (path_join TEMP action) \<noteq> 0"
  shows "execute_action env srv action dets s =
     (Inr (), add_events (start_events env s srv action dets resp
        @ [Call (path_join TEMP action)]
        @ log_events env s (''Executing '' @ action @ '' failed: returncode=''
                            @ str_int (subprocess_call env (path_join TEMP action))) True
        @ hook_events env s action (onfailure dets)) s)"
  using assms
  by (simp add: execute_action_started types_differ bnd_def emit_add_events log_add hook_add)

lemma execute_action_binary_ok:
  assumes "safe s" "requests env ''get'' (action_url srv action) = Inr resp"
    "saved env action resp"
    "headers resp ''content-type'' = Some CONTENT_TYPE_OTHER"
    "subprocess_call env (path_join TEMP action) = 0"
  shows "execute_action env srv action dets s =
     (Inr (), add_events (start_events env s srv action dets resp
        @ [Call (path_join TEMP action)]
        @ log_events env s (''Action '' @ action @ '' executed succesfully'') False
        @ hook_events env s action (onsuccess dets)) s)"
  using assms
  by (simp add: execute_action_started types_differ bnd_def emit_add_events log_add hook_add)

lemma execute_action_unknown:
  assumes "safe s" "requests env ''get'' (action_url srv action) = Inr resp"
    "saved env action resp"
    "headers resp ''content-type'' = Some ct"
    "ct \<noteq> CONTENT_TYPE_PYTHON" "ct \<noteq> CONTENT_TYPE_OTHER"
  shows "execute_action env srv action dets s =
     (Inr (), add_events (start_events env s srv action dets resp
        @ log_events env s (''Unable to execute action '' @ action
                            @ '' - unknown contenty-type '' @ ct) True) s)"
  using assms
  by (simp add: execute_action_started log_add)

lemma execute_action_fetch_raises:
  assumes "safe s" "requests env ''get'' (action_url srv action) = Inl e"
  shows "execute_action env srv action dets s =
     (Inl e, add_events (log_events env s (''Downloading action '' @ action) False
                         @ get_events env s srv action) s)"
  using assms
  by (simp add: execute_action_def bnd_def log_add download_action_raises)

lemma execute_action_write_raises:
  assumes "safe s" "requests env ''get'' (action_url srv action) = Inr resp"
    "open_write env (path_join TEMP action) (filter (\<lambda>chunk. chunk \<noteq> []) (iter_content resp))
       = Some e"
  shows "execute_action env srv action dets s =
     (Inl e, add_events (log_events env s (''Downloading action '' @ action) False
                         @ get_events env s srv action) s)"
  using assms
  by (simp add: execute_action_def bnd_def log_add download_action_write_raises)

lemma execute_action_chmod_raises:
  assumes "safe s" "requests env ''get'' (action_url srv action) = Inr resp"
    "open_write env (path_join TEMP action) (filter (\<lambda>chunk. chunk \<noteq> []) (iter_content resp))
       = None"
    "os_chmod env (path_join TEMP action) = Some e"
  shows "execute_action env srv action dets s =
     (Inl e, add_events (log_events env s (''Downloading action '' @ action) False
        @ get_events env s srv action
        @ [WriteFile (path_join TEMP action) (filter (\<lambda>chunk. chunk \<noteq> []) (iter_content resp))]) s)"
  using assms
  by (simp add: execute_action_def bnd_def log_add download_action_chmod_raises)

lemma execute_action_no_header:
  assumes "safe s" "requests env ''get'' (action_url srv action) = Inr resp"
    "saved env action resp"
    "headers resp ''content-type'' = None"
  shows "execute_action env srv action dets s =
     (Inl (KeyError ''content-type''),
      add_events (log_events env s (''Downloading action '' @ action) False
        @ get_events env s srv action
        @ [WriteFile (path_join TEMP action) (filter (\<lambda>chunk. chunk \<noteq> []) (iter_content resp)),
           Chmod (path_join TEMP action)]) s)"
  using assms
  by (simp add: execute_action_def bnd_def log_add download_action_no_header)

lemma filter_log_events [simp]:
  "filter is_execution (log_events env s msg err) = []"
  "filter is_send (log_events env s msg err) = []"
  by (simp_all add: log_events_def is_execution_def is_send_def)

lemma filter_hook_events [simp]:
  "filter is_execution (hook_events env s action h) = []"
  by (simp add: hook_events_def split: option.splits)

lemma filter_start_events [simp]:
  "filter is_execution (start_events env s srv action dets resp) = []"
  by (simp add: start_events_def get_events_def is_execution_def)

lemma message_d_disconnected:
  "\<not> connected self \<Longrightarrow> safe s \<Longrightarrow>
   message_d (Suc (Suc d)) env self msg s =
     (Inr (), logged env (''XmppClient: Failed to send mesage because '' @ jid self
                          @ '' is not connected to server'') True s)"
  by (simp add: log_d_safe del: log_d.simps)

lemma run_actions_append:
  "run_actions env srv (pre @ post) s =
     (case run_actions env srv pre s of
        (Inl e, s') \<Rightarrow> (Inl e, s')
      | (Inr u, s') \<Rightarrow> run_actions env srv post s')"
proof (induction pre arbitrary: s)
  case Nil
  show ?case by simp
next
  case (Cons a pre)
  obtain action dets where a: "a = (action, dets)" by (cases a)
  show ?case
    by (simp add: a Cons.IH split: option.splits prod.splits sum.splits)
qed

subsection \<open>The messenger while it is not connected\<close>

text \<open>
  Claim C6. When the messenger is not connected, \<open>message\<close> does not raise and sends
  nothing to any room: it only reports the failure through \<open>log\<close>, which hands an
  error record to the logger (when the logger is set up) and prints the line. The state
  is one in which the global \<open>xmpp_client\<close> is set and is itself not connected, as it
  is whenever \<open>message\<close> is reached through that global.
\<close>

theorem message_when_not_connected:
  assumes "\<not> connected self" and "safe s"
  shows "fst (message env self msg s) = Inr ()
    \<and> trace (snd (message env self msg s)) =
        trace s
        @ (if syslog_manager s
           then [Syslog True (''XmppClient: Failed to send mesage because '' @ jid self
                              @ '' is not connected to server'')]
           else [])
        @ [Print (line env s (''XmppClient: Failed to send mesage because '' @ jid self
                              @ '' is not connected to server'') True)]
    \<and> filter is_send (trace (snd (message env self msg s))) = filter is_send (trace s)"
proof -
  have "message env self msg s =
     (Inr (), logged env (''XmppClient: Failed to send mesage because '' @ jid self
                          @ '' is not connected to server'') True s)"
    unfolding message_def recursion_limit_Suc
    by (rule message_d_disconnected [OF assms])
  then show ?thesis
    by (simp add: log_events_def is_send_def)
qed

theorem message_when_not_connected_witness:
  "\<not> connected client0 \<and> safe configured_state
   \<and> fst (message test_env client0 ''hello'' configured_state) = Inr ()
   \<and> trace (snd (message test_env client0 ''hello'' configured_state)) =
       [Syslog True ''XmppClient: Failed to send mesage because ztps@example.com is not connected to server'',
        Print ''2014-03-01_00:00:00: ztp-bootstrap: ERROR: XmppClient: Failed to send mesage because ztps@example.com is not connected to server'']"
proof -
  have c: "\<not> connected client0" by (simp add: client0_def)
  show ?thesis
    using c safe_configured
      message_when_not_connected [OF c safe_configured, of test_env "''hello''"]
    by (simp add: configured_state_def client0_def test_env_def line_def)
qed

subsection \<open>Facts about the example environment\<close>

lemma test_env_a1:
  "requests test_env ''get'' (action_url SERVER ''a1'')
     = Inr \<lparr>headers = [''content-type'' \<mapsto> ''text/x-python''],
            iter_content = [''raise ValueError'']\<rparr>"
  by (simp add: test_env_def action_url_def SERVER_def)

lemma test_env_a3:
  "requests test_env ''get'' (action_url SERVER ''a3'')
     = Inr \<lparr>headers = [''content-type'' \<mapsto> ''text/plain''], iter_content = [''exit 2'']\<rparr>"
  by (simp add: test_env_def action_url_def SERVER_def)

lemma test_env_a4:
  "requests test_env ''get'' (action_url SERVER ''a4'')
     = Inr \<lparr>headers = [''content-type'' \<mapsto> ''application/json''], iter_content = [''{}'']\<rparr>"
  by (simp add: test_env_def action_url_def SERVER_def)

lemma test_env_a6:
  "requests test_env ''get'' (action_url SERVER ''a6'') = Inl (Exception ''connection refused'')"
  by (simp add: test_env_def action_url_def SERVER_def)

lemma test_env_a7:
  "requests test_env ''get'' (action_url SERVER ''a7'')
     = Inr \<lparr>headers = [''content-type'' \<mapsto> ''text/x-python''],
            iter_content = [''import sys; sys.exit(1)'']\<rparr>"
  by (simp add: test_env_def action_url_def SERVER_def)

lemma test_env_a8:
  "requests test_env ''get'' (action_url SERVER ''a8'')
     = Inr \<lparr>headers = Map.empty, iter_content = [''echo'']\<rparr>"
  by (simp add: test_env_def action_url_def SERVER_def)

lemma test_env_empty_name:
  "requests test_env ''get'' (action_url SERVER [])
     = Inr \<lparr>headers = [''content-type'' \<mapsto> ''text/plain''], iter_content = [''echo'']\<rparr>"
  by (simp add: test_env_def action_url_def SERVER_def)

lemma test_env_saved:
  "saved test_env ''a1'' resp" "saved test_env ''a3'' resp" "saved test_env ''a4'' resp"
  "saved test_env ''a7'' resp" "saved test_env ''a8'' resp"
  by (simp_all add: saved_def test_env_def path_join_def TEMP_def)

lemma test_env_unwritable:
  "open_write test_env (path_join TEMP []) chunks = Some (IOError ''Is a directory'')"
  by (simp add: test_env_def path_join_def TEMP_def)

lemma test_env_load:
  "load_source test_env ''a1'' f = Some (Exception ''boom'')"
  "load_source test_env ''a7'' f = Some (SystemExit ''1'')"
  by (simp_all add: test_env_def)

lemma test_env_time: "strftime test_env t = ''2014-03-01_00:00:00''"
  by (simp add: test_env_def)

lemma configured_fields:
  "syslog_manager configured_state" "clock configured_state = 0"
  "trace configured_state = []" "ATTRIBUTES configured_state = [''x'' \<mapsto> ''1'']"
  by (simp_all add: configured_state_def)

lemma requires_a1: "requires dets_a1 = Some [''x'']"
  by (simp add: dets_a1_def)

lemma missing_configured: "missing_attr configured_state [''x''] = []"
  by (simp add: missing_attr_def configured_fields)

lemma str_int_2: "str_int 2 = ''2''"
  by (simp add: str_int_def digits.simps digit_char_def)

subsection \<open>Execution of a fetched action\<close>

text \<open>
  Claim C8 as stated (every error raised by an interpreted payload is caught) does not
  hold: the handler is \<open>except Exception\<close>, which lets \<open>SystemExit\<close> and the other
  raises outside \<open>Exception\<close> pass. A payload that calls \<open>sys.exit(1)\<close> ends
  \<open>execute_action\<close> with that exception right after the load: no failure line, no
  on-failure hook although the action declares one, and the run over the actions ends
  there, before the next action is requested.
\<close>

theorem sys_exit_propagates:
  "execute_action test_env SERVER ''a7'' dets_a1 configured_state
     = (Inl (SystemExit ''1''),
        configured_state\<lparr>trace :=
          [Syslog False ''Downloading action a7'',
           Print ''2014-03-01_00:00:00: ztp-bootstrap: Downloading action a7'',
           Syslog False ''ServerConnection: Retrieving server config'',
           Print ''2014-03-01_00:00:00: ztp-bootstrap: ServerConnection: Retrieving server config'',
           Syslog False ''ServerConnection: GET $SERVER/actions/a7'',
           Print ''2014-03-01_00:00:00: ztp-bootstrap: ServerConnection: GET $SERVER/actions/a7'',
           Request ''get'' ''$SERVER/actions/a7'',
           WriteFile ''/tmp/a7'' [''import sys; sys.exit(1)''],
           Chmod ''/tmp/a7'',
           Syslog False ''Executing action a7'',
           Print ''2014-03-01_00:00:00: ztp-bootstrap: Executing action a7'',
           LoadSource ''a7'' ''/tmp/a7'']\<rparr>)
   \<and> onfailure dets_a1 = Some ''a1 failed''
   \<and> run_actions test_env SERVER [(''a7'', dets_a1), (''a1'', dets_a1)] configured_state
       = execute_action test_env SERVER ''a7'' dets_a1 configured_state"
proof -
  have h: "headers \<lparr>headers = [''content-type'' \<mapsto> ''text/x-python''],
            iter_content = [''import sys; sys.exit(1)'']\<rparr> ''content-type''
            = Some CONTENT_TYPE_PYTHON"
    by (simp add: CONTENT_TYPE_PYTHON_def)
  have n: "\<not> is_Exception (SystemExit ''1'')" by simp
  note ex = execute_action_python_exits
    [OF safe_configured test_env_a7 test_env_saved(4) h test_env_load(2) n, of dets_a1]
  have one: "execute_action test_env SERVER ''a7'' dets_a1 configured_state
     = (Inl (SystemExit ''1''),
        configured_state\<lparr>trace :=
          [Syslog False ''Downloading action a7'',
           Print ''2014-03-01_00:00:00: ztp-bootstrap: Downloading action a7'',
           Syslog False ''ServerConnection: Retrieving server config'',
           Print ''2014-03-01_00:00:00: ztp-bootstrap: ServerConnection: Retrieving server config'',
           Syslog False ''ServerConnection: GET $SERVER/actions/a7'',
           Print ''2014-03-01_00:00:00: ztp-bootstrap: ServerConnection: GET $SERVER/actions/a7'',
           Request ''get'' ''$SERVER/actions/a7'',
           WriteFile ''/tmp/a7'' [''import sys; sys.exit(1)''],
           Chmod ''/tmp/a7'',
           Syslog False ''Executing action a7'',
           Print ''2014-03-01_00:00:00: ztp-bootstrap: Executing action a7'',
           LoadSource ''a7'' ''/tmp/a7'']\<rparr>)"
    unfolding ex
    by (simp add: start_events_def get_events_def log_events_def hook_events_def line_def
                  test_env_time configured_fields dets_a1_def path_join_def TEMP_def
                  action_url_def SERVER_def add_events_def)
  have two: "run_actions test_env SERVER [(''a7'', dets_a1), (''a1'', dets_a1)] configured_state
       = execute_action test_env SERVER ''a7'' dets_a1 configured_state"
    by (simp add: requires_a1 missing_configured ex)
  show ?thesis
    using one two by (simp add: dets_a1_def)
qed

text \<open>
  Claim C8, amended. When the fetched and saved payload is an interpreted script and
  loading it raises an error that derives from \<open>Exception\<close>, \<open>execute_action\<close> returns
  normally: after the load attempt it logs one error line that ends with the text of the
  exception, then logs the on-failure hook message once if the action declares one, and
  logs no success line. A raise that does not derive from \<open>Exception\<close> is not caught:
  \<open>execute_action\<close> ends with it right after the load attempt.
\<close>

theorem python_failure_is_caught:
  assumes "safe s"
    and "requests env ''get'' (action_url srv action) = Inr resp"
    and "saved env action resp"
    and "headers resp ''content-type'' = Some CONTENT_TYPE_PYTHON"
    and "load_source env action (path_join TEMP action) = Some e"
  shows "(is_Exception e \<longrightarrow>
            execute_action env srv action dets s =
              (Inr (), add_events (start_events env s srv action dets resp
                 @ [LoadSource action (path_join TEMP action)]
                 @ log_events env s (''Executing '' @ action @ '' failed: '' @ str e) True
                 @ (case onfailure dets of
                      None \<Rightarrow> []
                    | Some m \<Rightarrow> log_events env s (''ACTION '' @ action @ '':'' @ m) False)) s))
    \<and> (\<not> is_Exception e \<longrightarrow>
            execute_action env srv action dets s =
              (Inl e, add_events (start_events env s srv action dets resp
                 @ [LoadSource action (path_join TEMP action)]) s))"
  using execute_action_python_raises [OF assms, of dets]
    execute_action_python_exits [OF assms, of dets]
  by (simp add: hook_events_def)

theorem python_failure_is_caught_witness:
  "safe configured_state
   \<and> saved test_env ''a1'' \<lparr>headers = [''content-type'' \<mapsto> ''text/x-python''],
                              iter_content = [''raise ValueError'']\<rparr>
   \<and> load_source test_env ''a1'' (path_join TEMP ''a1'') = Some (Exception ''boom'')
   \<and> is_Exception (Exception ''boom'')
   \<and> fst (execute_action test_env SERVER ''a1'' dets_a1 configured_state) = Inr ()
   \<and> trace (snd (execute_action test_env SERVER ''a1'' dets_a1 configured_state)) =
       [Syslog False ''Downloading action a1'',
        Print ''2014-03-01_00:00:00: ztp-bootstrap: Downloading action a1'',
        Syslog False ''ServerConnection: Retrieving server config'',
        Print ''2014-03-01_00:00:00: ztp-bootstrap: ServerConnection: Retrieving server config'',
        Syslog False ''ServerConnection: GET $SERVER/actions/a1'',
        Print ''2014-03-01_00:00:00: ztp-bootstrap: ServerConnection: GET $SERVER/actions/a1'',
        Request ''get'' ''$SERVER/actions/a1'',
        WriteFile ''/tmp/a1'' [''raise ValueError''],
        Chmod ''/tmp/a1'',
        Syslog False ''Executing action a1'',
        Print ''2014-03-01_00:00:00: ztp-bootstrap: Executing action a1'',
        LoadSource ''a1'' ''/tmp/a1'',
        Syslog True ''Executing a1 failed: boom'',
        Print ''2014-03-01_00:00:00: ztp-bootstrap: ERROR: Executing a1 failed: boom'',
        Syslog False ''ACTION a1:a1 failed'',
        Print ''2014-03-01_00:00:00: ztp-bootstrap: ACTION a1:a1 failed'']
   \<and> \<not> is_Exception (SystemExit ''1'')
   \<and> fst (execute_action test_env SERVER ''a7'' dets_a1 configured_state) = Inl (SystemExit ''1'')"
proof -
  have h1: "headers \<lparr>headers = [''content-type'' \<mapsto> ''text/x-python''],
            iter_content = [''raise ValueError'']\<rparr> ''content-type'' = Some CONTENT_TYPE_PYTHON"
    by (simp add: CONTENT_TYPE_PYTHON_def)
  have h7: "headers \<lparr>headers = [''content-type'' \<mapsto> ''text/x-python''],
            iter_content = [''import sys; sys.exit(1)'']\<rparr> ''content-type''
            = Some CONTENT_TYPE_PYTHON"
    by (simp add: CONTENT_TYPE_PYTHON_def)
  show ?thesis
    using safe_configured test_env_saved(1) test_env_load(1)
      python_failure_is_caught
        [OF safe_configured test_env_a1 test_env_saved(1) h1 test_env_load(1), of dets_a1]
      python_failure_is_caught
        [OF safe_configured test_env_a7 test_env_saved(4) h7 test_env_load(2), of dets_a1]
    by (simp add: start_events_def get_events_def log_events_def hook_events_def line_def
                  test_env_time configured_fields dets_a1_def action_url_def SERVER_def
                  path_join_def TEMP_def)
qed

text \<open>
  Claim C9 as stated (for every fetched action the outcome follows from the content type
  and is never fatal to the run) does not hold for a response that has no content-type
  header: \<open>download_action\<close> reads \<open>response.headers['content-type']\<close> after the file
  has been written, the \<open>KeyError\<close> is caught nowhere, and the run ends before the next
  action is requested.
\<close>

theorem no_header_is_fatal:
  "run_actions test_env SERVER [(''a8'', dets_a1), (''a1'', dets_a1)] configured_state
     = (Inl (KeyError ''content-type''),
        configured_state\<lparr>trace :=
          [Syslog False ''Downloading action a8'',
           Print ''2014-03-01_00:00:00: ztp-bootstrap: Downloading action a8'',
           Syslog False ''ServerConnection: Retrieving server config'',
           Print ''2014-03-01_00:00:00: ztp-bootstrap: ServerConnection: Retrieving server config'',
           Syslog False ''ServerConnection: GET $SERVER/actions/a8'',
           Print ''2014-03-01_00:00:00: ztp-bootstrap: ServerConnection: GET $SERVER/actions/a8'',
           Request ''get'' ''$SERVER/actions/a8'',
           WriteFile ''/tmp/a8'' [''echo''],
           Chmod ''/tmp/a8'']\<rparr>)"
proof -
  have h: "headers \<lparr>headers = Map.empty, iter_content = [''echo'']\<rparr> ''content-type'' = None"
    by simp
  note ex = execute_action_no_header
    [OF safe_configured test_env_a8 test_env_saved(5) h, of dets_a1]
  have step: "run_actions test_env SERVER [(''a8'', dets_a1), (''a1'', dets_a1)] configured_state
       = execute_action test_env SERVER ''a8'' dets_a1 configured_state"
    by (simp add: requires_a1 missing_configured ex)
  show ?thesis
    unfolding step ex
    by (simp add: get_events_def log_events_def line_def test_env_time configured_fields
                  path_join_def TEMP_def action_url_def SERVER_def add_events_def)
qed

text \<open>
  Claim C9, amended. For a fetched and saved action the content-type header of the
  response decides what \<open>execute_action\<close> does with the file: \<open>text/x-python\<close> is
  loaded in-process (exactly one load, no shell call), \<open>text/plain\<close> is invoked through
  the shell (exactly one call, no load), and with any other content type nothing is
  loaded or called: one error line naming the unknown content type is logged and
  \<open>execute_action\<close> returns normally. A response without the header is fatal:
  \<open>execute_action\<close> ends with \<open>KeyError\<close> and nothing is loaded or called.
\<close>

theorem dispatch_on_content_type:
  assumes "safe s"
    and "requests env ''get'' (action_url srv action) = Inr resp"
    and "saved env action resp"
  shows "(headers resp ''content-type'' = Some CONTENT_TYPE_PYTHON \<longrightarrow>
            filter is_execution (trace (snd (execute_action env srv action dets s)))
              = filter is_execution (trace s) @ [LoadSource action (path_join TEMP action)])
    \<and> (headers resp ''content-type'' = Some CONTENT_TYPE_OTHER \<longrightarrow>
            filter is_execution (trace (snd (execute_action env srv action dets s)))
              = filter is_execution (trace s) @ [Call (path_join TEMP action)])
    \<and> (\<forall>ct. headers resp ''content-type'' = Some ct
              \<and> ct \<noteq> CONTENT_TYPE_PYTHON \<and> ct \<noteq> CONTENT_TYPE_OTHER \<longrightarrow>
            execute_action env srv action dets s =
              (Inr (), add_events (start_events env s srv action dets resp
                 @ log_events env s (''Unable to execute action '' @ action
                                     @ '' - unknown contenty-type '' @ ct) True) s)
            \<and> filter is_execution (trace (snd (execute_action env srv action dets s)))
              = filter is_execution (trace s))
    \<and> (headers resp ''content-type'' = None \<longrightarrow>
            fst (execute_action env srv action dets s) = Inl (KeyError ''content-type'')
            \<and> filter is_execution (trace (snd (execute_action env srv action dets s)))
              = filter is_execution (trace s))"
proof (intro conjI impI allI)
  assume h: "headers resp ''content-type'' = Some CONTENT_TYPE_PYTHON"
  show "filter is_execution (trace (snd (execute_action env srv action dets s)))
          = filter is_execution (trace s) @ [LoadSource action (path_join TEMP action)]"
  proof (cases "load_source env action (path_join TEMP action)")
    case None
    show ?thesis
      by (simp add: execute_action_python_ok [OF assms h None] is_execution_def)
  next
    case (Some e)
    show ?thesis
    proof (cases "is_Exception e")
      case True
      show ?thesis
        by (simp add: execute_action_python_raises [OF assms h Some True] is_execution_def)
    next
      case False
      show ?thesis
        by (simp add: execute_action_python_exits [OF assms h Some False] is_execution_def)
    qed
  qed
next
  assume h: "headers resp ''content-type'' = Some CONTENT_TYPE_OTHER"
  show "filter is_execution (trace (snd (execute_action env srv action dets s)))
          = filter is_execution (trace s) @ [Call (path_join TEMP action)]"
  proof (cases "subprocess_call env (path_join TEMP action) = 0")
    case True
    show ?thesis
      by (simp add: execute_action_binary_ok [OF assms h True] is_execution_def)
  next
    case False
    show ?thesis
      by (simp add: execute_action_binary_fails [OF assms h False] is_execution_def)
  qed
next
  fix ct
  assume u: "headers resp ''content-type'' = Some ct
              \<and> ct \<noteq> CONTENT_TYPE_PYTHON \<and> ct \<noteq> CONTENT_TYPE_OTHER"
  then show "execute_action env srv action dets s =
              (Inr (), add_events (start_events env s srv action dets resp
                 @ log_events env s (''Unable to execute action '' @ action
                                     @ '' - unknown contenty-type '' @ ct) True) s)"
    using execute_action_unknown [OF assms, of ct dets] by simp
next
  fix ct
  assume u: "headers resp ''content-type'' = Some ct
              \<and> ct \<noteq> CONTENT_TYPE_PYTHON \<and> ct \<noteq> CONTENT_TYPE_OTHER"
  then show "filter is_execution (trace (snd (execute_action env srv action dets s)))
              = filter is_execution (trace s)"
    using execute_action_unknown [OF assms, of ct dets] by simp
next
  assume h: "headers resp ''content-type'' = None"
  show "fst (execute_action env srv action dets s) = Inl (KeyError ''content-type'')"
    by (simp add: execute_action_no_header [OF assms h])
next
  assume h: "headers resp ''content-type'' = None"
  show "filter is_execution (trace (snd (execute_action env srv action dets s)))
              = filter is_execution (trace s)"
    by (simp add: execute_action_no_header [OF assms h] get_events_def is_execution_def)
qed

theorem dispatch_on_content_type_witness:
  "safe configured_state
   \<and> filter is_execution (trace (snd (execute_action test_env SERVER ''a1'' dets_a1 configured_state)))
       = [LoadSource ''a1'' ''/tmp/a1'']
   \<and> filter is_execution (trace (snd (execute_action test_env SERVER ''a3'' dets_a1 configured_state)))
       = [Call ''/tmp/a3'']
   \<and> fst (execute_action test_env SERVER ''a4'' dets_a1 configured_state) = Inr ()
   \<and> filter is_execution (trace (snd (execute_action test_env SERVER ''a4'' dets_a1 configured_state)))
       = []
   \<and> last (trace (snd (execute_action test_env SERVER ''a4'' dets_a1 configured_state)))
       = Print ''2014-03-01_00:00:00: ztp-bootstrap: ERROR: Unable to execute action a4 - unknown contenty-type application/json''
   \<and> fst (execute_action test_env SERVER ''a8'' dets_a1 configured_state)
       = Inl (KeyError ''content-type'')
   \<and> filter is_execution (trace (snd (execute_action test_env SERVER ''a8'' dets_a1 configured_state)))
       = []"
proof -
  have e: "filter is_execution (trace configured_state) = []"
    by (simp add: configured_fields)
  show ?thesis
    using safe_configured
      dispatch_on_content_type [OF safe_configured test_env_a1 test_env_saved(1), of dets_a1]
      dispatch_on_content_type [OF safe_configured test_env_a3 test_env_saved(2), of dets_a1]
      dispatch_on_content_type [OF safe_configured test_env_a4 test_env_saved(3), of dets_a1]
      dispatch_on_content_type [OF safe_configured test_env_a8 test_env_saved(5), of dets_a1]
    by (simp add: e configured_fields test_env_time CONTENT_TYPE_PYTHON_def
                  CONTENT_TYPE_OTHER_def path_join_def TEMP_def log_events_def line_def
                  is_execution_def)
qed

subsection \<open>The loop over the actions\<close>

text \<open>
  Claim C10. Every action entry has to carry a \<open>requires\<close> field: when the loop reaches
  an entry without it, reading \<open>details['requires']\<close> raises \<open>KeyError\<close>, which nothing
  catches. The run ends there, in the state the earlier entries left: neither that
  action nor any later one is logged, fetched or executed. (If an earlier entry already
  ended the run, its exception is the result.)
\<close>

theorem missing_requires_aborts:
  assumes "requires dets = None"
  shows "run_actions env srv (pre @ (action, dets) # post) s =
     (case run_actions env srv pre s of
        (Inl e, s') \<Rightarrow> (Inl e, s')
      | (Inr u, s') \<Rightarrow> (Inl (KeyError ''requires''), s'))"
  using assms
  by (simp add: run_actions_append split: prod.splits sum.splits)

theorem missing_requires_aborts_witness:
  "requires dets_bare = None
   \<and> run_actions test_env SERVER ([] @ (''a5'', dets_bare) # [(''a1'', dets_a1)]) configured_state
       = (Inl (KeyError ''requires''), configured_state)"
proof -
  have r: "requires dets_bare = None" by (simp add: dets_bare_def)
  show ?thesis
    using r missing_requires_aborts [OF r, of test_env SERVER "[]" "''a5''"
        "[(''a1'', dets_a1)]" configured_state]
    by simp
qed

lemma action_url_inject [simp]: "action_url srv a = action_url srv b \<longleftrightarrow> a = b"
  by (simp add: action_url_def)

lemma request_urls_append [simp]:
  "request_urls (xs @ ys) = request_urls xs @ request_urls ys"
  by (induction xs rule: request_urls.induct) simp_all

lemma request_urls_log_events [simp]: "request_urls (log_events env s msg err) = []"
  by (simp add: log_events_def)

lemma request_urls_hook_events [simp]: "request_urls (hook_events env s action h) = []"
  by (simp add: hook_events_def split: option.splits)

lemma request_urls_get_events [simp]:
  "request_urls (get_events env s srv action) = [action_url srv action]"
  by (simp add: get_events_def)

lemma request_urls_start_events [simp]:
  "request_urls (start_events env s srv action dets resp) = [action_url srv action]"
  by (simp add: start_events_def)

lemma eligible_add_events [simp]: "eligible (add_events evs s) dets = eligible s dets"
  by (simp add: eligible_def split: option.splits)

lemma execute_action_urls:
  assumes "safe s"
  shows "\<exists>r evs. execute_action env srv action dets s = (r, add_events evs s)
           \<and> request_urls evs = [action_url srv action]"
proof (cases "requests env ''get'' (action_url srv action)")
  case (Inl e)
  show ?thesis
    unfolding execute_action_fetch_raises [OF assms Inl] by (intro exI conjI, rule refl) simp
next
  case (Inr resp)
  show ?thesis
  proof (cases "open_write env (path_join TEMP action)
                  (filter (\<lambda>chunk. chunk \<noteq> []) (iter_content resp))")
    case (Some e)
    show ?thesis
      unfolding execute_action_write_raises [OF assms Inr Some]
      by (intro exI conjI, rule refl) simp
  next
    case None
    note w = None
    show ?thesis
    proof (cases "os_chmod env (path_join TEMP action)")
      case (Some e)
      show ?thesis
        unfolding execute_action_chmod_raises [OF assms Inr w Some]
        by (intro exI conjI, rule refl) simp
    next
      case None
      have sv: "saved env action resp" using w None by (simp add: saved_def)
      show ?thesis
      proof (cases "headers resp ''content-type''")
        case None
        show ?thesis
          unfolding execute_action_no_header [OF assms Inr sv None]
          by (intro exI conjI, rule refl) simp
      next
        case (Some ct)
        consider (py) "ct = CONTENT_TYPE_PYTHON" | (ot) "ct = CONTENT_TYPE_OTHER"
          | (un) "ct \<noteq> CONTENT_TYPE_PYTHON" "ct \<noteq> CONTENT_TYPE_OTHER"
          by blast
        then show ?thesis
        proof cases
          case py
          note h = Some [unfolded py]
          show ?thesis
          proof (cases "load_source env action (path_join TEMP action)")
            case None
            show ?thesis
              unfolding execute_action_python_ok [OF assms Inr sv h None]
              by (intro exI conjI, rule refl) simp
          next
            case (Some e)
            show ?thesis
            proof (cases "is_Exception e")
              case True
              show ?thesis
                unfolding execute_action_python_raises [OF assms Inr sv h Some True]
                by (intro exI conjI, rule refl) simp
            next
              case False
              show ?thesis
                unfolding execute_action_python_exits [OF assms Inr sv h Some False]
                by (intro exI conjI, rule refl) simp
            qed
          qed
        next
          case ot
          note h = Some [unfolded ot]
          show ?thesis
          proof (cases "subprocess_call env (path_join TEMP action) = 0")
            case True
            show ?thesis
              unfolding execute_action_binary_ok [OF assms Inr sv h True]
              by (intro exI conjI, rule refl) simp
          next
            case False
            show ?thesis
              unfolding execute_action_binary_fails [OF assms Inr sv h False]
              by (intro exI conjI, rule refl) simp
          qed
        next
          case un
          show ?thesis
            unfolding execute_action_unknown [OF assms Inr sv Some un]
            by (intro exI conjI, rule refl) simp
        qed
      qed
    qed
  qed
qed

lemma ex_run:
  "f = (r, add_events evs s) \<Longrightarrow> P evs
   \<Longrightarrow> \<exists>r evs. f = (r, add_events evs s) \<and> P evs"
  by blast

lemma run_actions_urls:
  assumes "safe s"
  shows "\<exists>r evs. run_actions env srv acts s = (r, add_events evs s)
           \<and> set (request_urls evs)
               \<subseteq> set (map (\<lambda>x. action_url srv (fst x)) (filter (\<lambda>x. eligible s (snd x)) acts))"
  using assms
proof (induction acts arbitrary: s)
  case Nil
  have res: "run_actions env srv [] s = (Inr (), add_events [] s)" by simp
  show ?case by (rule ex_run [OF res]) simp
next
  case (Cons x acts)
  obtain action dets where x: "x = (action, dets)" by (cases x)
  show ?case
  proof (cases "requires dets")
    case None
    have res: "run_actions env srv (x # acts) s = (Inl (KeyError ''requires''), add_events [] s)"
      by (simp add: x None)
    show ?thesis by (rule ex_run [OF res]) simp
  next
    case (Some req)
    show ?thesis
    proof (cases "missing_attr s req = []")
      case False
      define evs0 where "evs0 = log_events env s (''Failed to load action '' @ action
                           @ '' because the following attributes are missing: ''
                           @ join '', '' (missing_attr s req)) True"
      have s1: "safe (add_events evs0 s)" using Cons.prems by simp
      obtain r evs where run: "run_actions env srv acts (add_events evs0 s)
            = (r, add_events evs (add_events evs0 s))"
        and sub: "set (request_urls evs)
               \<subseteq> set (map (\<lambda>x. action_url srv (fst x))
                        (filter (\<lambda>x. eligible (add_events evs0 s) (snd x)) acts))"
        using Cons.IH [OF s1] by blast
      have step: "run_actions env srv (x # acts) s = run_actions env srv acts (add_events evs0 s)"
        using False Cons.prems by (simp add: x Some log_add evs0_def)
      have res: "run_actions env srv (x # acts) s = (r, add_events (evs0 @ evs) s)"
        unfolding step run by simp
      have u0: "request_urls evs0 = []" by (simp add: evs0_def)
      have inc: "set (request_urls (evs0 @ evs))
               \<subseteq> set (map (\<lambda>x. action_url srv (fst x)) (filter (\<lambda>x. eligible s (snd x)) (x # acts)))"
        using sub by (auto simp: u0)
      show ?thesis by (rule ex_run [OF res]) (rule inc)
    next
      case True
      have el: "eligible s dets" by (simp add: eligible_def Some True)
      obtain r1 evs1 where ex: "execute_action env srv action dets s = (r1, add_events evs1 s)"
        and u1: "request_urls evs1 = [action_url srv action]"
        using execute_action_urls [OF Cons.prems] by blast
      show ?thesis
      proof (cases r1)
        case (Inl e)
        have res: "run_actions env srv (x # acts) s = (Inl e, add_events evs1 s)"
          using True ex Inl by (simp add: x Some)
        have inc: "set (request_urls evs1)
               \<subseteq> set (map (\<lambda>x. action_url srv (fst x)) (filter (\<lambda>x. eligible s (snd x)) (x # acts)))"
          by (simp add: u1 x el)
        show ?thesis by (rule ex_run [OF res]) (rule inc)
      next
        case (Inr u)
        have s1: "safe (add_events evs1 s)" using Cons.prems by simp
        obtain r evs where run: "run_actions env srv acts (add_events evs1 s)
              = (r, add_events evs (add_events evs1 s))"
          and sub: "set (request_urls evs)
               \<subseteq> set (map (\<lambda>x. action_url srv (fst x))
                        (filter (\<lambda>x. eligible (add_events evs1 s) (snd x)) acts))"
          using Cons.IH [OF s1] by blast
        have res: "run_actions env srv (x # acts) s = (r, add_events (evs1 @ evs) s)"
          using True ex Inr run by (simp add: x Some)
        have inc: "set (request_urls (evs1 @ evs))
               \<subseteq> set (map (\<lambda>x. action_url srv (fst x)) (filter (\<lambda>x. eligible s (snd x)) (x # acts)))"
          using sub by (auto simp: u1 x el)
        show ?thesis by (rule ex_run [OF res]) (rule inc)
      qed
    qed
  qed
qed

lemma missing_attr_nonempty:
  "missing_attr s req \<noteq> [] \<longleftrightarrow> (\<exists>x\<in>set req. ATTRIBUTES s x = None)"
  by (simp add: missing_attr_def filter_empty_conv)

lemma not_eligible:
  "requires dets = Some req \<Longrightarrow> \<exists>x\<in>set req. ATTRIBUTES s x = None \<Longrightarrow> \<not> eligible s dets"
  by (simp add: eligible_def missing_attr_nonempty)

lemma skipped_step:
  assumes "safe s" "requires dets = Some req" "\<exists>x\<in>set req. ATTRIBUTES s x = None"
  shows "run_actions env srv ((action, dets) # rest) s
     = run_actions env srv rest
         (add_events (log_events env s (''Failed to load action '' @ action
                        @ '' because the following attributes are missing: ''
                        @ join '', '' (filter (\<lambda>x. ATTRIBUTES s x = None) req)) True) s)"
proof -
  have m: "missing_attr s req \<noteq> []" using assms(3) by (simp add: missing_attr_nonempty)
  show ?thesis
    using assms(1,2) m by (simp add: log_add) (simp add: missing_attr_def)
qed

lemma skipped_never_requested:
  assumes "safe s" "requires dets = Some req" "\<exists>x\<in>set req. ATTRIBUTES s x = None"
    "distinct (map fst acts)" "(action, dets) \<in> set acts"
  shows "action_url srv action
     \<notin> set (request_urls (drop (length (trace s)) (trace (snd (run_actions env srv acts s)))))"
proof
  assume a: "action_url srv action
     \<in> set (request_urls (drop (length (trace s)) (trace (snd (run_actions env srv acts s)))))"
  obtain r evs where run: "run_actions env srv acts s = (r, add_events evs s)"
    and sub: "set (request_urls evs)
               \<subseteq> set (map (\<lambda>x. action_url srv (fst x)) (filter (\<lambda>x. eligible s (snd x)) acts))"
    using run_actions_urls [OF assms(1)] by blast
  have "action_url srv action \<in> set (request_urls evs)"
    using a by (simp add: run)
  then have "action_url srv action
     \<in> set (map (\<lambda>x. action_url srv (fst x)) (filter (\<lambda>x. eligible s (snd x)) acts))"
    using sub by blast
  then obtain a' d' where m: "(a', d') \<in> set acts" and e: "eligible s d'"
    and u: "action_url srv a' = action_url srv action"
    by auto
  have "a' = action" using u by simp
  then have "d' = dets"
    using m assms(4,5) by (auto dest: eq_key_imp_eq_value)
  then show False using e not_eligible [OF assms(2,3)] by simp
qed

text \<open>
  Claim C1. When the loop reaches an action of which some required attribute is not a
  key of \<open>ATTRIBUTES\<close>, it logs one error line that names the action and exactly the
  required attributes that are absent (in the order of the list, joined by commas) and
  goes on with the next action: nothing else happens for this action. Over a whole run
  of a definition (its action names are the keys of a dictionary, so they are distinct)
  no request for such an action is ever made. The state is one whose messenger is set
  and not connected, which \<open>log\<close> needs.
\<close>

theorem skipped_action_is_reported_not_fetched:
  assumes "safe s" and "requires dets = Some req"
    and "\<exists>x\<in>set req. ATTRIBUTES s x = None"
  shows "run_actions env srv ((action, dets) # rest) s
           = run_actions env srv rest
               (add_events (log_events env s (''Failed to load action '' @ action
                              @ '' because the following attributes are missing: ''
                              @ join '', '' (filter (\<lambda>x. ATTRIBUTES s x = None) req)) True) s)
    \<and> (\<forall>acts. distinct (map fst acts) \<longrightarrow> (action, dets) \<in> set acts \<longrightarrow>
           action_url srv action
             \<notin> set (request_urls (drop (length (trace s))
                                      (trace (snd (run_actions env srv acts s))))))"
  using skipped_step [OF assms] skipped_never_requested [OF assms] by blast

theorem skipped_action_is_reported_not_fetched_witness:
  "safe configured_state \<and> requires dets_a2 = Some [''x'', ''y'', ''z'']
   \<and> ATTRIBUTES configured_state ''x'' = Some ''1''
   \<and> ATTRIBUTES configured_state ''y'' = None
   \<and> ATTRIBUTES configured_state ''z'' = None
   \<and> fst (run_actions test_env SERVER [(''a2'', dets_a2)] configured_state) = Inr ()
   \<and> trace (snd (run_actions test_env SERVER [(''a2'', dets_a2)] configured_state))
       = [Syslog True ''Failed to load action a2 because the following attributes are missing: y, z'',
          Print ''2014-03-01_00:00:00: ztp-bootstrap: ERROR: Failed to load action a2 because the following attributes are missing: y, z'']
   \<and> action_url SERVER ''a2''
       \<notin> set (request_urls (drop (length (trace configured_state))
            (trace (snd (run_actions test_env SERVER [(''a1'', dets_a1), (''a2'', dets_a2)]
                           configured_state)))))"
proof -
  have r: "requires dets_a2 = Some [''x'', ''y'', ''z'']" by (simp add: dets_a2_def)
  have m: "\<exists>x\<in>set [''x'', ''y'', ''z'']. ATTRIBUTES configured_state x = None"
    by (simp add: configured_fields)
  note th = skipped_action_is_reported_not_fetched [OF safe_configured r m, of test_env SERVER "''a2''"]
  have one: "run_actions test_env SERVER [(''a2'', dets_a2)] configured_state
      = (Inr (), add_events (log_events test_env configured_state
           (''Failed to load action '' @ ''a2''
              @ '' because the following attributes are missing: ''
              @ join '', '' (filter (\<lambda>x. ATTRIBUTES configured_state x = None)
                                    [''x'', ''y'', ''z''])) True) configured_state)"
    using th [of "[]", THEN conjunct1] by simp
  have two: "action_url SERVER ''a2''
       \<notin> set (request_urls (drop (length (trace configured_state))
            (trace (snd (run_actions test_env SERVER [(''a1'', dets_a1), (''a2'', dets_a2)]
                           configured_state)))))"
    using th [of "[]", THEN conjunct2, rule_format, of "[(''a1'', dets_a1), (''a2'', dets_a2)]"]
    by simp
  show ?thesis
    using safe_configured r two
    by (simp add: one log_events_def line_def test_env_time configured_fields
             del: run_actions.simps)
qed

lemma all_present:
  "\<forall>x\<in>set req. ATTRIBUTES s x \<noteq> None \<Longrightarrow> missing_attr s req = []"
  by (simp add: missing_attr_def filter_empty_conv)

text \<open>
  Claim C2 as stated (a failing fetch or execution is confined to its action) does not
  hold. Nothing catches what \<open>server.get_action\<close> raises, what writing the file raises,
  or a payload's raise outside \<open>Exception\<close>. In each of three runs over two eligible
  actions the first action fails in one of these ways and the run ends with that
  exception; the only request ever made is the one for the first action.
\<close>

theorem fetch_failure_aborts_run:
  "run_actions test_env SERVER [(''a6'', dets_a1), (''a1'', dets_a1)] configured_state
     = (Inl (Exception ''connection refused''),
        configured_state\<lparr>trace :=
          [Syslog False ''Downloading action a6'',
           Print ''2014-03-01_00:00:00: ztp-bootstrap: Downloading action a6'',
           Syslog False ''ServerConnection: Retrieving server config'',
           Print ''2014-03-01_00:00:00: ztp-bootstrap: ServerConnection: Retrieving server config'',
           Syslog False ''ServerConnection: GET $SERVER/actions/a6'',
           Print ''2014-03-01_00:00:00: ztp-bootstrap: ServerConnection: GET $SERVER/actions/a6'',
           Request ''get'' ''$SERVER/actions/a6'']\<rparr>)
   \<and> fst (run_actions test_env SERVER [(''a7'', dets_a1), (''a1'', dets_a1)] configured_state)
       = Inl (SystemExit ''1'')
   \<and> request_urls (trace (snd (run_actions test_env SERVER [(''a7'', dets_a1), (''a1'', dets_a1)]
                                  configured_state)))
       = [''$SERVER/actions/a7'']
   \<and> fst (run_actions test_env SERVER [([], dets_a1), (''a1'', dets_a1)] configured_state)
       = Inl (IOError ''Is a directory'')
   \<and> request_urls (trace (snd (run_actions test_env SERVER [([], dets_a1), (''a1'', dets_a1)]
                                  configured_state)))
       = [''$SERVER/actions/'']"
proof -
  have h7: "headers \<lparr>headers = [''content-type'' \<mapsto> ''text/x-python''],
            iter_content = [''import sys; sys.exit(1)'']\<rparr> ''content-type''
            = Some CONTENT_TYPE_PYTHON"
    by (simp add: CONTENT_TYPE_PYTHON_def)
  have n: "\<not> is_Exception (SystemExit ''1'')" by simp
  note e6 = execute_action_fetch_raises [OF safe_configured test_env_a6, of dets_a1]
  note e7 = execute_action_python_exits
    [OF safe_configured test_env_a7 test_env_saved(4) h7 test_env_load(2) n, of dets_a1]
  note e0 = execute_action_write_raises
    [OF safe_configured test_env_empty_name test_env_unwritable, of dets_a1]
  have s6: "run_actions test_env SERVER [(''a6'', dets_a1), (''a1'', dets_a1)] configured_state
     = execute_action test_env SERVER ''a6'' dets_a1 configured_state"
    by (simp add: requires_a1 missing_configured e6)
  have s7: "run_actions test_env SERVER [(''a7'', dets_a1), (''a1'', dets_a1)] configured_state
     = execute_action test_env SERVER ''a7'' dets_a1 configured_state"
    by (simp add: requires_a1 missing_configured e7)
  have s0: "run_actions test_env SERVER [([], dets_a1), (''a1'', dets_a1)] configured_state
     = execute_action test_env SERVER [] dets_a1 configured_state"
    by (simp add: requires_a1 missing_configured e0)
  show ?thesis
    unfolding s6 s7 s0 e6 e7 e0
    by (simp add: get_events_def log_events_def line_def test_env_time configured_fields
                  action_url_def SERVER_def add_events_def)
qed

text \<open>
  Claim C2, amended. For an eligible action that was fetched and saved, a failing
  execution is confined: when the interpreted payload raises an error that derives from
  \<open>Exception\<close>, or the executable returns a non-zero code, the loop logs the failure (an
  error line with the exception text or the return code, then the on-failure hook if
  declared) and goes on with the remaining actions. Not confined are a request that
  raises, a file that cannot be written, and a payload's raise outside \<open>Exception\<close>:
  the exception leaves the loop and the remaining actions are not attempted.
\<close>

theorem execution_failure_is_confined:
  assumes "safe s" and "requires dets = Some req"
    and "\<forall>x\<in>set req. ATTRIBUTES s x \<noteq> None"
  shows "(\<forall>resp e. requests env ''get'' (action_url srv action) = Inr resp
            \<and> saved env action resp
            \<and> headers resp ''content-type'' = Some CONTENT_TYPE_PYTHON
            \<and> load_source env action (path_join TEMP action) = Some e \<and> is_Exception e
          \<longrightarrow> run_actions env srv ((action, dets) # rest) s
              = run_actions env srv rest
                  (add_events (start_events env s srv action dets resp
                     @ [LoadSource action (path_join TEMP action)]
                     @ log_events env s (''Executing '' @ action @ '' failed: '' @ str e) True
                     @ hook_events env s action (onfailure dets)) s))
    \<and> (\<forall>resp. requests env ''get'' (action_url srv action) = Inr resp
            \<and> saved env action resp
            \<and> headers resp ''content-type'' = Some CONTENT_TYPE_OTHER
            \<and> subprocess_call env (path_join TEMP action) \<noteq> 0
          \<longrightarrow> run_actions env srv ((action, dets) # rest) s
              = run_actions env srv rest
                  (add_events (start_events env s srv action dets resp
                     @ [Call (path_join TEMP action)]
                     @ log_events env s (''Executing '' @ action @ '' failed: returncode=''
                          @ str_int (subprocess_call env (path_join TEMP action))) True
                     @ hook_events env s action (onfailure dets)) s))
    \<and> (\<forall>e. requests env ''get'' (action_url srv action) = Inl e
          \<longrightarrow> run_actions env srv ((action, dets) # rest) s
              = (Inl e, add_events (log_events env s (''Downloading action '' @ action) False
                                    @ get_events env s srv action) s))
    \<and> (\<forall>resp e. requests env ''get'' (action_url srv action) = Inr resp
            \<and> open_write env (path_join TEMP action)
                 (filter (\<lambda>chunk. chunk \<noteq> []) (iter_content resp)) = Some e
          \<longrightarrow> run_actions env srv ((action, dets) # rest) s
              = (Inl e, add_events (log_events env s (''Downloading action '' @ action) False
                                    @ get_events env s srv action) s))
    \<and> (\<forall>resp e. requests env ''get'' (action_url srv action) = Inr resp
            \<and> saved env action resp
            \<and> headers resp ''content-type'' = Some CONTENT_TYPE_PYTHON
            \<and> load_source env action (path_join TEMP action) = Some e \<and> \<not> is_Exception e
          \<longrightarrow> run_actions env srv ((action, dets) # rest) s
              = (Inl e, add_events (start_events env s srv action dets resp
                                    @ [LoadSource action (path_join TEMP action)]) s))"
proof -
  have m: "missing_attr s req = []" by (rule all_present [OF assms(3)])
  have step: "run_actions env srv ((action, dets) # rest) s
      = (case execute_action env srv action dets s of
           (Inl e, s1) \<Rightarrow> (Inl e, s1)
         | (Inr u, s1) \<Rightarrow> run_actions env srv rest s1)"
    by (simp add: assms(2) m)
  show ?thesis
    unfolding step
  proof (intro conjI allI impI)
    fix resp e
    assume a: "requests env ''get'' (action_url srv action) = Inr resp
            \<and> saved env action resp
            \<and> headers resp ''content-type'' = Some CONTENT_TYPE_PYTHON
            \<and> load_source env action (path_join TEMP action) = Some e \<and> is_Exception e"
    have "execute_action env srv action dets s =
       (Inr (), add_events (start_events env s srv action dets resp
          @ [LoadSource action (path_join TEMP action)]
          @ log_events env s (''Executing '' @ action @ '' failed: '' @ str e) True
          @ hook_events env s action (onfailure dets)) s)"
      using a by (intro execute_action_python_raises assms(1)) simp_all
    then show "(case execute_action env srv action dets s of
           (Inl e, s1) \<Rightarrow> (Inl e, s1)
         | (Inr u, s1) \<Rightarrow> run_actions env srv rest s1)
        = run_actions env srv rest
                  (add_events (start_events env s srv action dets resp
                     @ [LoadSource action (path_join TEMP action)]
                     @ log_events env s (''Executing '' @ action @ '' failed: '' @ str e) True
                     @ hook_events env s action (onfailure dets)) s)"
      by simp
  next
    fix resp
    assume a: "requests env ''get'' (action_url srv action) = Inr resp
            \<and> saved env action resp
            \<and> headers resp ''content-type'' = Some CONTENT_TYPE_OTHER
            \<and> subprocess_call env (path_join TEMP action) \<noteq> 0"
    have "execute_action env srv action dets s =
       (Inr (), add_events (start_events env s srv action dets resp
          @ [Call (path_join TEMP action)]
          @ log_events env s (''Executing '' @ action @ '' failed: returncode=''
                              @ str_int (subprocess_call env (path_join TEMP action))) True
          @ hook_events env s action (onfailure dets)) s)"
      using a by (intro execute_action_binary_fails assms(1)) simp_all
    then show "(case execute_action env srv action dets s of
           (Inl e, s1) \<Rightarrow> (Inl e, s1)
         | (Inr u, s1) \<Rightarrow> run_actions env srv rest s1)
        = run_actions env srv rest
                  (add_events (start_events env s srv action dets resp
                     @ [Call (path_join TEMP action)]
                     @ log_events env s (''Executing '' @ action @ '' failed: returncode=''
                          @ str_int (subprocess_call env (path_join TEMP action))) True
                     @ hook_events env s action (onfailure dets)) s)"
      by simp
  next
    fix e
    assume a: "requests env ''get'' (action_url srv action) = Inl e"
    show "(case execute_action env srv action dets s of
           (Inl e, s1) \<Rightarrow> (Inl e, s1)
         | (Inr u, s1) \<Rightarrow> run_actions env srv rest s1)
        = (Inl e, add_events (log_events env s (''Downloading action '' @ action) False
                              @ get_events env s srv action) s)"
      by (simp add: execute_action_fetch_raises [OF assms(1) a])
  next
    fix resp e
    assume a: "requests env ''get'' (action_url srv action) = Inr resp
            \<and> open_write env (path_join TEMP action)
                 (filter (\<lambda>chunk. chunk \<noteq> []) (iter_content resp)) = Some e"
    have "execute_action env srv action dets s =
       (Inl e, add_events (log_events env s (''Downloading action '' @ action) False
                           @ get_events env s srv action) s)"
      by (rule execute_action_write_raises [OF assms(1) a [THEN conjunct1] a [THEN conjunct2]])
    then show "(case execute_action env srv action dets s of
           (Inl e, s1) \<Rightarrow> (Inl e, s1)
         | (Inr u, s1) \<Rightarrow> run_actions env srv rest s1)
        = (Inl e, add_events (log_events env s (''Downloading action '' @ action) False
                              @ get_events env s srv action) s)"
      by simp
  next
    fix resp e
    assume a: "requests env ''get'' (action_url srv action) = Inr resp
            \<and> saved env action resp
            \<and> headers resp ''content-type'' = Some CONTENT_TYPE_PYTHON
            \<and> load_source env action (path_join TEMP action) = Some e \<and> \<not> is_Exception e"
    have "execute_action env srv action dets s =
       (Inl e, add_events (start_events env s srv action dets resp
                           @ [LoadSource action (path_join TEMP action)]) s)"
      using a by (intro execute_action_python_exits assms(1)) simp_all
    then show "(case execute_action env srv action dets s of
           (Inl e, s1) \<Rightarrow> (Inl e, s1)
         | (Inr u, s1) \<Rightarrow> run_actions env srv rest s1)
        = (Inl e, add_events (start_events env s srv action dets resp
                              @ [LoadSource action (path_join TEMP action)]) s)"
      by simp
  qed
qed

theorem execution_failure_is_confined_witness:
  "safe configured_state \<and> requires dets_a1 = Some [''x'']
   \<and> ATTRIBUTES configured_state ''x'' = Some ''1''
   \<and> fst (run_actions test_env SERVER [(''a1'', dets_a1)] configured_state) = Inr ()
   \<and> drop 11 (trace (snd (run_actions test_env SERVER [(''a1'', dets_a1)] configured_state)))
       = [LoadSource ''a1'' ''/tmp/a1'',
          Syslog True ''Executing a1 failed: boom'',
          Print ''2014-03-01_00:00:00: ztp-bootstrap: ERROR: Executing a1 failed: boom'',
          Syslog False ''ACTION a1:a1 failed'',
          Print ''2014-03-01_00:00:00: ztp-bootstrap: ACTION a1:a1 failed'']
   \<and> fst (run_actions test_env SERVER [(''a3'', dets_a1)] configured_state) = Inr ()
   \<and> drop 11 (trace (snd (run_actions test_env SERVER [(''a3'', dets_a1)] configured_state)))
       = [Call ''/tmp/a3'',
          Syslog True ''Executing a3 failed: returncode=2'',
          Print ''2014-03-01_00:00:00: ztp-bootstrap: ERROR: Executing a3 failed: returncode=2'',
          Syslog False ''ACTION a3:a1 failed'',
          Print ''2014-03-01_00:00:00: ztp-bootstrap: ACTION a3:a1 failed'']
   \<and> fst (run_actions test_env SERVER [(''a6'', dets_a1), (''a1'', dets_a1)] configured_state)
       = Inl (Exception ''connection refused'')
   \<and> fst (run_actions test_env SERVER [([], dets_a1), (''a1'', dets_a1)] configured_state)
       = Inl (IOError ''Is a directory'')
   \<and> fst (run_actions test_env SERVER [(''a7'', dets_a1), (''a1'', dets_a1)] configured_state)
       = Inl (SystemExit ''1'')"
proof -
  have p: "\<forall>x\<in>set [''x'']. ATTRIBUTES configured_state x \<noteq> None"
    by (simp add: configured_fields)
  note th = execution_failure_is_confined [OF safe_configured requires_a1 p, of test_env SERVER]
  have c: "subprocess_call test_env (path_join TEMP ''a3'') = 2"
    by (simp add: test_env_def)
  have one: "run_actions test_env SERVER [(''a1'', dets_a1)] configured_state
      = (Inr (), add_events (start_events test_env configured_state SERVER ''a1'' dets_a1
                     \<lparr>headers = [''content-type'' \<mapsto> ''text/x-python''],
                        iter_content = [''raise ValueError'']\<rparr>
                     @ [LoadSource ''a1'' (path_join TEMP ''a1'')]
                     @ log_events test_env configured_state
                         (''Executing '' @ ''a1'' @ '' failed: '' @ str (Exception ''boom'')) True
                     @ hook_events test_env configured_state ''a1'' (onfailure dets_a1))
                  configured_state)"
    using th [of "''a1''" "[]", THEN conjunct1, rule_format,
              of "\<lparr>headers = [''content-type'' \<mapsto> ''text/x-python''],
                    iter_content = [''raise ValueError'']\<rparr>" "Exception ''boom''"]
    by (simp add: test_env_a1 test_env_saved test_env_load CONTENT_TYPE_PYTHON_def)
  have two: "run_actions test_env SERVER [(''a3'', dets_a1)] configured_state
      = (Inr (), add_events (start_events test_env configured_state SERVER ''a3'' dets_a1
                     \<lparr>headers = [''content-type'' \<mapsto> ''text/plain''],
                        iter_content = [''exit 2'']\<rparr>
                     @ [Call (path_join TEMP ''a3'')]
                     @ log_events test_env configured_state
                         (''Executing '' @ ''a3'' @ '' failed: returncode='' @ str_int 2) True
                     @ hook_events test_env configured_state ''a3'' (onfailure dets_a1))
                  configured_state)"
    using th [of "''a3''" "[]", THEN conjunct2, THEN conjunct1, rule_format,
              of "\<lparr>headers = [''content-type'' \<mapsto> ''text/plain''],
                    iter_content = [''exit 2'']\<rparr>"]
    by (simp add: test_env_a3 test_env_saved c CONTENT_TYPE_OTHER_def)
  have three: "fst (run_actions test_env SERVER [(''a6'', dets_a1), (''a1'', dets_a1)] configured_state)
      = Inl (Exception ''connection refused'')"
    using th [of "''a6''" "[(''a1'', dets_a1)]", THEN conjunct2, THEN conjunct2, THEN conjunct1,
              rule_format, of "Exception ''connection refused''"]
    by (simp add: test_env_a6)
  have four: "fst (run_actions test_env SERVER [([], dets_a1), (''a1'', dets_a1)] configured_state)
      = Inl (IOError ''Is a directory'')"
    using th [of "[]" "[(''a1'', dets_a1)]", THEN conjunct2, THEN conjunct2, THEN conjunct2,
              THEN conjunct1, rule_format,
              of "\<lparr>headers = [''content-type'' \<mapsto> ''text/plain''], iter_content = [''echo'']\<rparr>"
                 "IOError ''Is a directory''"]
    by (simp add: test_env_empty_name test_env_unwritable)
  have five: "fst (run_actions test_env SERVER [(''a7'', dets_a1), (''a1'', dets_a1)] configured_state)
      = Inl (SystemExit ''1'')"
    using th [of "''a7''" "[(''a1'', dets_a1)]", THEN conjunct2, THEN conjunct2, THEN conjunct2,
              THEN conjunct2, rule_format,
              of "\<lparr>headers = [''content-type'' \<mapsto> ''text/x-python''],
                    iter_content = [''import sys; sys.exit(1)'']\<rparr>" "SystemExit ''1''"]
    by (simp add: test_env_a7 test_env_saved test_env_load CONTENT_TYPE_PYTHON_def)
  show ?thesis
    using safe_configured requires_a1
    unfolding one two three four five
    by (simp add: start_events_def get_events_def log_events_def hook_events_def line_def
                  test_env_time configured_fields dets_a1_def path_join_def TEMP_def
                  action_url_def SERVER_def str_int_2)
qed

subsection \<open>The readiness poll\<close>
















end
